theory Spec2Isabelle
  imports Main "HOL-Library.Multiset" "HOL-Library.Log_Nat"
begin

section \<open>Data model of the MCQ practice screen\<close>

text \<open>
  The component \<^verbatim>\<open>MCQPractice\<close> (src/components/MCQPractice.tsx) keeps its data in
  React state, in JavaScript arrays that are shared by reference, and in the documents of
  the remote store. The model has one record for each: \<open>state\<close> for the React state,
  and \<open>world\<close> for the array store, the remote documents, the log of remote calls,
  the console and the pending timers. Each handler of the component is a function from
  the state and the world before an event to those after it; what a remote call or the
  random sort returns is a parameter of the handler. Loading the chapter
  (\<^verbatim>\<open>fetchTopics\<close>, \<^verbatim>\<open>fetchQuestions\<close>) is not modelled: the cached list is whatever
  the array at \<open>allQuestions\<close> holds.

  The interface \<^verbatim>\<open>MCQ\<close> is declared in src/unnamed/part_001 (line 16). Its field
  \<^verbatim>\<open>id\<close> is named \<open>id_MCQ\<close> here, since \<open>id\<close> is the identity function of HOL.
  A \<^verbatim>\<open>number\<close> that holds an index or a count is an \<open>int\<close> or a \<open>nat\<close>; an optional
  field is an \<open>option\<close>.
\<close>

record MCQ =
  id_MCQ :: string
  chapterId :: string
  topicId :: "string option"
  question :: string
  options :: "string list"
  correctAnswer :: int
  explanation :: "string option"

text \<open>
  \<^verbatim>\<open>UserAnswerResult\<close> (MCQPractice.tsx, lines 19-27). Its fields carry the prefix
  \<open>res_\<close>, since several of them share their names with fields of \<open>MCQ\<close> and of the
  component state.
\<close>

record UserAnswerResult =
  res_questionId :: string
  res_question :: string
  res_options :: "string list"
  res_correctAnswer :: int
  res_selectedOption :: nat
  res_isCorrect :: bool
  res_explanation :: "string option"

datatype filter_mode = ModeAll | ModeNew | ModeBookmarked

datatype msg_type = MsgSuccess | MsgError

type_synonym ref = nat

text \<open>The props of the component: the chapter, the signed-in user, and the revision flag.\<close>

record props =
  chapter_id :: string
  chapter_subjectId :: string
  user_uid :: string
  isQuickRevision :: bool

text \<open>
  The \<^verbatim>\<open>useState\<close> cells of the component (lines 32-54 and 239). The two arrays are
  held by reference: \<open>allQuestions\<close> and \<open>questions\<close> are addresses in the array store.
\<close>

record state =
  allQuestions :: ref
  questions :: ref
  selectedTopicId :: "string option"
  showFilterModal :: bool
  loading :: bool
  tempTopicId :: "string option"
  tempLimit :: int
  tempFilterMode :: filter_mode
  currentQuestionIndex :: nat
  selectedOption :: "nat option"
  isAnswerChecked :: bool
  sessionResults :: "UserAnswerResult list"
  isSessionComplete :: bool
  userBookmarks :: "string set"
  msg :: "(msg_type \<times> string) option"

text \<open>The documents written under \<^verbatim>\<open>users/{uid}/bookmarks\<close> and \<^verbatim>\<open>users/{uid}/progress\<close>.\<close>

record bookmark_doc =
  bm_chapterId :: string
  bm_subjectId :: string
  bm_timestamp :: nat

record progress_doc =
  pr_isCorrect :: bool
  pr_chapterId :: string
  pr_subjectId :: string
  pr_timestamp :: nat
  pr_attemptCount :: nat

datatype remote_call =
    SetBookmarkDoc string string bookmark_doc
  | DeleteBookmarkDoc string string
  | SetProgressDoc string string progress_doc

text \<open>
  Everything outside the React state. \<open>cells\<close> maps the address of an array to its
  content and \<open>fresh\<close> is the next unused address. The remote documents are keyed by
  (user id, question id), as their paths are. \<open>remoteCalls\<close> logs every call issued to
  the store, \<open>console\<close> every \<^verbatim>\<open>console.error\<close>, and \<open>timers\<close> counts the pending
  \<^verbatim>\<open>setTimeout(() => setMsg(null), 2000)\<close>.
\<close>

record world =
  cells :: "ref \<Rightarrow> MCQ list"
  fresh :: ref
  bookmarkDocs :: "string \<times> string \<Rightarrow> bookmark_doc option"
  progressDocs :: "string \<times> string \<Rightarrow> progress_doc option"
  remoteCalls :: "remote_call list"
  console :: "string list"
  timers :: nat

datatype js_error = TypeError

section \<open>Arrays\<close>

text \<open>
  \<^verbatim>\<open>Array.prototype.filter\<close> and \<^verbatim>\<open>slice\<close> return a new array;
  \<^verbatim>\<open>Array.prototype.sort\<close> sorts the array it is called on and returns that same array.
\<close>

definition alloc :: "MCQ list \<Rightarrow> world \<Rightarrow> ref \<times> world" where
  "alloc xs w = (fresh w, w\<lparr>cells := (cells w)(fresh w := xs), fresh := Suc (fresh w)\<rparr>)"

definition array_filter :: "(MCQ \<Rightarrow> bool) \<Rightarrow> ref \<Rightarrow> world \<Rightarrow> ref \<times> world" where
  "array_filter f r w = alloc (filter f (cells w r)) w"

text \<open>
  \<^verbatim>\<open>slice(0, end)\<close>: a negative \<open>end\<close> counts from the end of the array, and the
  result is clamped to the array.
\<close>

definition slice0 :: "int \<Rightarrow> MCQ list \<Rightarrow> MCQ list" where
  "slice0 e xs =
     (if e < 0 then take (nat (int (length xs) + e)) xs else take (nat e) xs)"

definition array_slice0 :: "int \<Rightarrow> ref \<Rightarrow> world \<Rightarrow> ref \<times> world" where
  "array_slice0 e r w = alloc (slice0 e (cells w r)) w"

text \<open>
  \<^verbatim>\<open>filtered.sort(() => Math.random() - 0.5)\<close>. The comparator is random, so the
  order that the engine's sort leaves is not determined by the array; the outcome of the
  call is the parameter \<open>rnd\<close>, which maps the content before the call to the content
  after it. A sort only reorders, so the theorems about the session assume of \<open>rnd\<close>
  that it returns a permutation of its argument.
\<close>

definition array_sort :: "(MCQ list \<Rightarrow> MCQ list) \<Rightarrow> ref \<Rightarrow> world \<Rightarrow> ref \<times> world" where
  "array_sort rnd r w = (r, w\<lparr>cells := (cells w)(r := rnd (cells w r))\<rparr>)"

section \<open>Session setup\<close>

text \<open>The test \<^verbatim>\<open>topicId && topicId !== 'all'\<close>: null and the empty string are falsy.\<close>

definition topicSelected :: "string option \<Rightarrow> bool" where
  "topicSelected t = (case t of None \<Rightarrow> False | Some s \<Rightarrow> s \<noteq> [] \<and> s \<noteq> ''all'')"

text \<open>\<^verbatim>\<open>setupSession\<close> (lines 104-140).\<close>

definition setupSession ::
  "props \<Rightarrow> (MCQ list \<Rightarrow> MCQ list) \<Rightarrow> ref \<Rightarrow> string set \<Rightarrow> filter_mode \<Rightarrow> string option \<Rightarrow> int
     \<Rightarrow> state \<times> world \<Rightarrow> state \<times> world" where
  "setupSession p rnd sourceQuestions bookmarks mode topic limit sw =
     (let (st, w0) = sw;
          (filtered1, w1) =
             (if topicSelected topic
              then array_filter (\<lambda>q. topicId q = topic) sourceQuestions w0
              else (sourceQuestions, w0));
          (filtered2, w2) =
             (if isQuickRevision p \<or> mode = ModeBookmarked
              then array_filter (\<lambda>q. id_MCQ q \<in> bookmarks) filtered1 w1
              else (filtered1, w1));
          (shuffled, w3) = array_sort rnd filtered2 w2;
          (finalQuestions, w4) = array_slice0 limit shuffled w3
      in (st\<lparr>questions := finalQuestions,
             currentQuestionIndex := 0,
             selectedOption := None,
             isAnswerChecked := False,
             sessionResults := [],
             isSessionComplete := (length (cells w4 finalQuestions) = 0)\<rparr>,
          w4))"

text \<open>The content of the array \<open>filtered\<close> after steps 1 and 2 of \<^verbatim>\<open>setupSession\<close>.\<close>

definition filteredQuestions ::
  "props \<Rightarrow> string set \<Rightarrow> filter_mode \<Rightarrow> string option \<Rightarrow> MCQ list \<Rightarrow> MCQ list" where
  "filteredQuestions p bookmarks mode topic src =
     (let f1 = (if topicSelected topic then filter (\<lambda>q. topicId q = topic) src else src)
      in if isQuickRevision p \<or> mode = ModeBookmarked
         then filter (\<lambda>q. id_MCQ q \<in> bookmarks) f1 else f1)"

text \<open>The content of the array that the state cell \<open>questions\<close> refers to.\<close>

definition sessionList :: "state \<times> world \<Rightarrow> MCQ list" where
  "sessionList sw = cells (snd sw) (questions (fst sw))"

section \<open>The filter panel\<close>

text \<open>
  The limit field of \<^verbatim>\<open>FilterModal\<close> (line 273):
  \<^verbatim>\<open>setTempLimit(Math.min(100, Math.max(1, parseInt(e.target.value) || 1)))\<close>.
  The argument is the result of \<^verbatim>\<open>parseInt\<close>, with \<open>None\<close> for NaN; NaN and 0 are
  falsy, so \<^verbatim>\<open>|| 1\<close> replaces them by 1.
\<close>

definition limitInput :: "int option \<Rightarrow> int" where
  "limitInput v =
     min 100 (max 1 (case v of None \<Rightarrow> 1 | Some n \<Rightarrow> if n = 0 then 1 else n))"

definition onLimitChange :: "int option \<Rightarrow> state \<Rightarrow> state" where
  "onLimitChange v st = st\<lparr>tempLimit := limitInput v\<rparr>"

text \<open>
  The topic field (line 258), \<^verbatim>\<open>setTempTopicId(e.target.value)\<close>, and the close button of
  the panel (line 248), \<^verbatim>\<open>setShowFilterModal(false)\<close>, which applies nothing.
\<close>

definition onTopicChange :: "string \<Rightarrow> state \<Rightarrow> state" where
  "onTopicChange v st = st\<lparr>tempTopicId := Some v\<rparr>"

definition closeFilterModal :: "state \<Rightarrow> state" where
  "closeFilterModal st = st\<lparr>showFilterModal := False\<rparr>"

definition MAX_QUESTIONS_PER_SESSION :: int where
  "MAX_QUESTIONS_PER_SESSION = 20"

text \<open>
  \<^verbatim>\<open>handleApplyFilter\<close> (lines 144-150). The calls \<^verbatim>\<open>setTempLimit(tempLimit)\<close> and
  \<^verbatim>\<open>setTempFilterMode(tempFilterMode)\<close> store the values the cells already hold.
\<close>

definition handleApplyFilter ::
  "props \<Rightarrow> (MCQ list \<Rightarrow> MCQ list) \<Rightarrow> state \<times> world \<Rightarrow> state \<times> world" where
  "handleApplyFilter p rnd sw =
     (let (st, w) = sw;
          st1 = st\<lparr>selectedTopicId := tempTopicId st\<rparr>;
          (st2, w2) = setupSession p rnd (allQuestions st) (userBookmarks st)
                        (tempFilterMode st) (tempTopicId st) (tempLimit st) (st1, w)
      in (st2\<lparr>showFilterModal := False\<rparr>, w2))"

text \<open>\<^verbatim>\<open>handleOpenFilter\<close> (lines 152-156).\<close>

definition handleOpenFilter :: "state \<times> world \<Rightarrow> state \<times> world" where
  "handleOpenFilter sw =
     (let (st, w) = sw;
          n = length (cells w (questions st))
      in (st\<lparr>tempTopicId := selectedTopicId st,
             tempLimit := (if n > 0 then int n else MAX_QUESTIONS_PER_SESSION),
             showFilterModal := True\<rparr>, w))"

section \<open>Running a session\<close>

text \<open>
  \<^verbatim>\<open>handleCheckAnswer\<close> (lines 158-191). \<open>now\<close> is the value of \<^verbatim>\<open>new Date()\<close> and
  \<open>ok\<close> says whether the remote \<^verbatim>\<open>setDoc\<close> succeeds. Reading a field of
  \<^verbatim>\<open>questions[currentQuestionIndex]\<close> throws a TypeError when the index is outside the
  array, before any state is set.
\<close>

definition handleCheckAnswer ::
  "props \<Rightarrow> nat \<Rightarrow> bool \<Rightarrow> state \<times> world \<Rightarrow> js_error + state \<times> world" where
  "handleCheckAnswer p now ok sw =
     (let (st, w) = sw in
      case selectedOption st of
        None \<Rightarrow> Inr (st, w)
      | Some sel \<Rightarrow>
          if isAnswerChecked st then Inr (st, w)
          else if currentQuestionIndex st < length (cells w (questions st)) then
            (let currentQ = cells w (questions st) ! currentQuestionIndex st;
                 isCorrect = (int sel = correctAnswer currentQ - 1);
                 result = \<lparr>res_questionId = id_MCQ currentQ,
                           res_question = question currentQ,
                           res_options = options currentQ,
                           res_correctAnswer = correctAnswer currentQ,
                           res_selectedOption = sel,
                           res_isCorrect = isCorrect,
                           res_explanation = explanation currentQ\<rparr>;
                 st' = st\<lparr>isAnswerChecked := True,
                           sessionResults := sessionResults st @ [result]\<rparr>;
                 d = \<lparr>pr_isCorrect = isCorrect,
                      pr_chapterId = chapterId currentQ,
                      pr_subjectId = chapter_subjectId p,
                      pr_timestamp = now,
                      pr_attemptCount = 1\<rparr>;
                 key = (user_uid p, id_MCQ currentQ);
                 w1 = w\<lparr>remoteCalls := remoteCalls w @ [SetProgressDoc (fst key) (snd key) d]\<rparr>
             in if ok
                then Inr (st', w1\<lparr>progressDocs := (progressDocs w1)(key := Some d)\<rparr>)
                else Inr (st', w1\<lparr>console := console w1 @ [''Error saving progress:'']\<rparr>))
          else Inl TypeError)"

text \<open>\<^verbatim>\<open>handleNext\<close> (lines 193-201); the comparison is on numbers, so an empty list gives \<open>-1\<close>.\<close>

definition handleNext :: "state \<times> world \<Rightarrow> state \<times> world" where
  "handleNext sw =
     (let (st, w) = sw in
      if int (currentQuestionIndex st) < int (length (cells w (questions st))) - 1
      then (st\<lparr>currentQuestionIndex := currentQuestionIndex st + 1,
               selectedOption := None,
               isAnswerChecked := False\<rparr>, w)
      else (st\<lparr>isSessionComplete := True\<rparr>, w))"

text \<open>
  \<^verbatim>\<open>handleResetSession\<close> (lines 203-206). Both setters of \<open>isSessionComplete\<close> run in
  the same event; the later one, \<^verbatim>\<open>setIsSessionComplete(false)\<close>, decides the value.
\<close>

definition handleResetSession ::
  "props \<Rightarrow> (MCQ list \<Rightarrow> MCQ list) \<Rightarrow> state \<times> world \<Rightarrow> state \<times> world" where
  "handleResetSession p rnd sw =
     (let (st, w) = sw;
          (st1, w1) = setupSession p rnd (allQuestions st) (userBookmarks st)
                        (tempFilterMode st) (tempTopicId st) (tempLimit st) (st, w)
      in (st1\<lparr>isSessionComplete := False\<rparr>, w1))"

text \<open>
  The range of the stored limit and of the session length. It holds initially (the limit
  is 20 and the session is empty) and every handler keeps it, so \<^verbatim>\<open>setupSession\<close> is
  only called with a limit between 1 and 100.
\<close>

definition limitInvariant :: "state \<times> world \<Rightarrow> bool" where
  "limitInvariant sw =
     (1 \<le> tempLimit (fst sw) \<and> tempLimit (fst sw) \<le> 100 \<and> length (sessionList sw) \<le> 100)"

text \<open>
  The translation between the 0-based selection and the 1-based stored answer, as a
  property of one entry of the result log.
\<close>

definition translationHolds :: "UserAnswerResult \<Rightarrow> bool" where
  "translationHolds r = (res_isCorrect r = (int (res_selectedOption r) = res_correctAnswer r - 1))"

section \<open>Bookmarks\<close>

text \<open>
  \<^verbatim>\<open>handleToggleBookmark\<close> (lines 208-233). \<open>ok\<close> says whether the remote call
  (\<^verbatim>\<open>deleteDoc\<close> or \<^verbatim>\<open>setDoc\<close>) succeeds; a call that fails throws, leaves the
  remote documents as they are, and the \<^verbatim>\<open>catch\<close> branch runs. Either branch ends with
  \<^verbatim>\<open>setTimeout(() => setMsg(null), 2000)\<close>. The bookmark button (line 418) passes
  \<^verbatim>\<open>userBookmarks.has(currentQuestion.id)\<close> as \<open>isBookmarked\<close>.
\<close>

definition handleToggleBookmark ::
  "props \<Rightarrow> nat \<Rightarrow> bool \<Rightarrow> string \<Rightarrow> bool \<Rightarrow> state \<times> world \<Rightarrow> state \<times> world" where
  "handleToggleBookmark p now ok questionId isBookmarked sw =
     (let (st, w) = sw;
          key = (user_uid p, questionId);
          d = \<lparr>bm_chapterId = chapter_id p,
               bm_subjectId = chapter_subjectId p,
               bm_timestamp = now\<rparr>;
          call = (if isBookmarked then DeleteBookmarkDoc (fst key) (snd key)
                  else SetBookmarkDoc (fst key) (snd key) d);
          w1 = w\<lparr>remoteCalls := remoteCalls w @ [call]\<rparr>
      in if ok then
           (if isBookmarked
            then (st\<lparr>userBookmarks := userBookmarks st - {questionId},
                     msg := Some (MsgSuccess, ''Bookmark Removed'')\<rparr>,
                  w1\<lparr>bookmarkDocs := (bookmarkDocs w1)(key := None),
                     timers := Suc (timers w1)\<rparr>)
            else (st\<lparr>userBookmarks := insert questionId (userBookmarks st),
                     msg := Some (MsgSuccess, ''Question Bookmarked!'')\<rparr>,
                  w1\<lparr>bookmarkDocs := (bookmarkDocs w1)(key := Some d),
                     timers := Suc (timers w1)\<rparr>))
         else (st\<lparr>msg := Some (MsgError, ''Failed to update bookmark.'')\<rparr>,
               w1\<lparr>console := console w1 @ [''Error toggling bookmark:''],
                  timers := Suc (timers w1)\<rparr>))"

text \<open>A pending timer fires: \<^verbatim>\<open>setMsg(null)\<close>.\<close>

definition timerFires :: "state \<times> world \<Rightarrow> state \<times> world" where
  "timerFires sw =
     (let (st, w) = sw in
      if timers w > 0 then (st\<lparr>msg := None\<rparr>, w\<lparr>timers := timers w - 1\<rparr>) else (st, w))"

section \<open>The score of the completion screen\<close>

text \<open>
  \<^verbatim>\<open>SessionCompleteScreen\<close> renders (line 340)
  \<^verbatim>\<open>questions.length > 0 ? ((totalCorrect / questions.length) * 100).toFixed(1) : 0\<close>.
  A JavaScript number is an IEEE 754 binary64 value. Every finite one is a rational, and
  division and multiplication return the exact result rounded to the nearest value with
  a significand of 53 bits, ties to the even significand. \<open>fl64\<close> is that rounding on
  the rationals. The exponent is not bounded in the model: the quotient of two array
  lengths (below \<open>2 ^ 32\<close>) and its product by 100 are neither subnormal nor out of
  range.
\<close>

definition round_half_even :: "rat \<Rightarrow> int" where
  "round_half_even x =
     (let f = \<lfloor>x\<rfloor>; d = x - of_int f
      in if d < 1/2 then f else if 1/2 < d then f + 1 else if even f then f else f + 1)"

text \<open>The binary exponent of a positive rational: the \<open>e\<close> with \<open>2 ^ e \<le> x < 2 ^ (e + 1)\<close>.\<close>

definition ilog2 :: "rat \<Rightarrow> int" where
  "ilog2 x =
     (let (p, q) = quotient_of x; k = bitlen p - bitlen q
      in if 2 powi k \<le> x then k else k - 1)"

definition fl64 :: "rat \<Rightarrow> rat" where
  "fl64 x =
     (if x = 0 then 0
      else (let ulp = 2 powi (ilog2 \<bar>x\<bar> - 52)
            in of_int (round_half_even (x / ulp)) * ulp))"

definition js_div :: "rat \<Rightarrow> rat \<Rightarrow> rat" where
  "js_div x y = fl64 (x / y)"

definition js_mul :: "rat \<Rightarrow> rat \<Rightarrow> rat" where
  "js_mul x y = fl64 (x * y)"

text \<open>The decimal digits of a natural number.\<close>

function digits :: "nat \<Rightarrow> string" where
  "digits n =
     (if n < 10 then [''0123456789'' ! n]
      else digits (n div 10) @ [''0123456789'' ! (n mod 10)])"
  by pat_completeness auto
termination
  by (relation "measure (\<lambda>n. n)") auto

text \<open>
  \<^verbatim>\<open>Number.prototype.toFixed(1)\<close>, for a finite number below \<open>10 ^ 21\<close>: with \<open>n\<close> the
  integer for which \<open>n / 10 - x\<close> is closest to zero, the larger one if there are two,
  the digits of \<open>n\<close> with a point before the last one, after a minus sign for a
  negative \<open>x\<close>.
\<close>

definition toFixed1 :: "rat \<Rightarrow> string" where
  "toFixed1 x =
     (let n = nat \<lfloor>\<bar>x\<bar> * 10 + 1/2\<rfloor>
      in (if x < 0 then ''-'' else []) @ digits (n div 10) @ ''.'' @ digits (n mod 10))"

text \<open>The value of the expression is a string or the number 0.\<close>

datatype js_value = JString string | JNumber rat

definition score :: "nat \<Rightarrow> nat \<Rightarrow> js_value" where
  "score correct len =
     (if len > 0
      then JString (toFixed1 (js_mul (js_div (of_nat correct) (of_nat len)) 100))
      else JNumber 0)"

text \<open>\<^verbatim>\<open>totalCorrect\<close> (line 236) and the score as the screen computes it from the state.\<close>

definition totalCorrect :: "state \<Rightarrow> nat" where
  "totalCorrect st = length (filter res_isCorrect (sessionResults st))"

definition SessionCompleteScreen_score :: "state \<times> world \<Rightarrow> js_value" where
  "SessionCompleteScreen_score sw =
     score (totalCorrect (fst sw)) (length (cells (snd sw) (questions (fst sw))))"

section \<open>The admin console: deleting a chapter\<close>

text \<open>
  \<^verbatim>\<open>handleDeleteChapter\<close> (src/unnamed/part_001, lines 146-180) works on the remote
  document store. A document is a list of fields, a reference is the pair of a
  collection and a document id, and the store lists each reference with its document.
  \<^verbatim>\<open>getDocs(query(collection(db, c), where(f, '==', v)))\<close> returns the references of
  the documents of \<open>c\<close> whose field \<open>f\<close> is \<open>v\<close>. A write batch collects deletions;
  \<^verbatim>\<open>commit\<close> applies all of them at once or, when it fails, none.
\<close>

type_synonym doc = "(string \<times> string) list"
type_synonym docref = "string \<times> string"
type_synonym firestore = "(docref \<times> doc) list"

definition getDocs_where :: "firestore \<Rightarrow> string \<Rightarrow> string \<Rightarrow> string \<Rightarrow> docref list" where
  "getDocs_where db coll field v =
     map fst (filter (\<lambda>(r, d). fst r = coll \<and> map_of d field = Some v) db)"

definition batch_commit :: "docref list \<Rightarrow> firestore \<Rightarrow> firestore" where
  "batch_commit batch db = filter (\<lambda>(r, d). r \<notin> set batch) db"

text \<open>The remote call of \<^verbatim>\<open>handleDeleteChapter\<close> that fails, if one does.\<close>

datatype remote_failure = TopicsQueryFails | McqsQueryFails | FormulasQueryFails | CommitFails

record admin_state =
  adm_loading :: bool
  adm_msg :: "(msg_type \<times> string) option"

text \<open>\<open>commitCalls\<close> logs the batch of every \<^verbatim>\<open>batch.commit()\<close> that is issued.\<close>

record admin_world =
  store :: firestore
  commitCalls :: "docref list list"
  adm_console :: "string list"

text \<open>
  \<open>confirmed\<close> is the answer to \<^verbatim>\<open>window.confirm\<close>. The refresh of the chapter list
  that follows a successful delete only reads the store and is not part of the model.
\<close>

definition handleDeleteChapter ::
  "bool \<Rightarrow> remote_failure option \<Rightarrow> string \<Rightarrow> string \<Rightarrow> admin_state \<times> admin_world
     \<Rightarrow> admin_state \<times> admin_world" where
  "handleDeleteChapter confirmed failure chapId chapterTitle sw =
     (let (st, w) = sw in
      if \<not> confirmed then (st, w)
      else
        (let st_err = st\<lparr>adm_loading := False,
                         adm_msg := Some (MsgError, ''Failed to delete chapter and related data.'')\<rparr>;
             w_err = w\<lparr>adm_console :=
                         adm_console w @ [''Error deleting chapter and related data:'']\<rparr>;
             batch0 = [(''chapters'', chapId)]
         in if failure = Some TopicsQueryFails then (st_err, w_err)
            else
         (let batch1 = batch0 @ getDocs_where (store w) ''topics'' ''chapterId'' chapId
          in if failure = Some McqsQueryFails then (st_err, w_err)
             else
          (let batch2 = batch1 @ getDocs_where (store w) ''mcqs'' ''chapterId'' chapId
           in if failure = Some FormulasQueryFails then (st_err, w_err)
              else
           (let batch3 = batch2 @ getDocs_where (store w) ''formulas'' ''chapterId'' chapId
            in if failure = Some CommitFails
               then (st_err, w_err\<lparr>commitCalls := commitCalls w @ [batch3]\<rparr>)
               else (st\<lparr>adm_loading := False,
                        adm_msg := Some (MsgSuccess,
                          ''Chapter '' @ [CHR 0x22] @ chapterTitle @ [CHR 0x22]
                            @ '' and all related data deleted successfully!'')\<rparr>,
                     w\<lparr>store := batch_commit batch3 (store w),
                       commitCalls := commitCalls w @ [batch3]\<rparr>))))))"

text \<open>
  The records that belong to chapter \<open>c\<close>: the chapter record itself, and the topic,
  MCQ and formula records whose field \<open>chapterId\<close> is \<open>c\<close>.
\<close>

definition belongsToChapter :: "string \<Rightarrow> docref \<times> doc \<Rightarrow> bool" where
  "belongsToChapter c rd =
     (fst rd = (''chapters'', c)
      \<or> (fst (fst rd) \<in> {''topics'', ''mcqs'', ''formulas''}
          \<and> map_of (snd rd) ''chapterId'' = Some c))"

section \<open>Example data\<close>

text \<open>
  A chapter with three questions, cached in the array at address 0; the session array
  of the initial state is the empty array at address 1.
\<close>

definition example_props :: props where
  "example_props =
     \<lparr>chapter_id = ''c1'', chapter_subjectId = ''s1'', user_uid = ''u1'',
      isQuickRevision = False\<rparr>"

definition example_question :: "string \<Rightarrow> string option \<Rightarrow> int \<Rightarrow> MCQ" where
  "example_question i t a =
     \<lparr>id_MCQ = i, chapterId = ''c1'', topicId = t, question = ''2 + 2 = ?'',
      options = [''3'', ''4'', ''5'', ''6''], correctAnswer = a, explanation = None\<rparr>"

definition example_questions :: "MCQ list" where
  "example_questions =
     [example_question ''q1'' (Some ''t1'') 2,
      example_question ''q2'' None 1,
      example_question ''q3'' (Some ''t1'') 4]"

definition example_world :: world where
  "example_world =
     \<lparr>cells = (\<lambda>r. if r = 0 then example_questions else []),
      fresh = 2,
      bookmarkDocs = (\<lambda>k. None),
      progressDocs = (\<lambda>k. None),
      remoteCalls = [],
      console = [],
      timers = 0\<rparr>"

definition example_state :: state where
  "example_state =
     \<lparr>allQuestions = 0, questions = 1, selectedTopicId = None, showFilterModal = False,
      loading = False, tempTopicId = None, tempLimit = 20, tempFilterMode = ModeAll,
      currentQuestionIndex = 0, selectedOption = None, isAnswerChecked = False,
      sessionResults = [], isSessionComplete = False, userBookmarks = {}, msg = None\<rparr>"

text \<open>
  The session after "Apply Filters" on the example state, the same with the fourth
  option selected, and the session after "Apply Filters" in the bookmarked mode with no
  bookmark, which is empty and therefore complete.
\<close>

definition example_session :: "state \<times> world" where
  "example_session = handleApplyFilter example_props rev (example_state, example_world)"

definition example_selected :: "state \<times> world" where
  "example_selected = ((fst example_session)\<lparr>selectedOption := Some 3\<rparr>, snd example_session)"

definition example_completed :: "state \<times> world" where
  "example_completed =
     handleApplyFilter example_props rev
       (example_state\<lparr>tempFilterMode := ModeBookmarked\<rparr>, example_world)"

text \<open>
  After "Apply Filters" on the example state (all topics): the panel is opened, the topic
  \<open>t1\<close> is chosen there, the panel is closed without applying, and the three questions
  are stepped through to the completion screen.
\<close>

definition example_edited :: "state \<times> world" where
  "example_edited =
     handleNext (handleNext (handleNext
       (closeFilterModal (onTopicChange ''t1'' (fst (handleOpenFilter example_session))),
        snd (handleOpenFilter example_session))))"

text \<open>
  A finished session of twenty questions, the first fourteen answered correctly.
\<close>

definition example_finished :: "state \<times> world" where
  "example_finished =
     (example_state
        \<lparr>questions := 2,
         currentQuestionIndex := 19,
         selectedOption := Some 1,
         isAnswerChecked := True,
         isSessionComplete := True,
         sessionResults :=
           map (\<lambda>i. \<lparr>res_questionId = digits i, res_question = ''2 + 2 = ?'',
                      res_options = [''3'', ''4'', ''5'', ''6''],
                      res_correctAnswer = (if i < 14 then 2 else 3),
                      res_selectedOption = 1, res_isCorrect = (i < 14),
                      res_explanation = None\<rparr>) [0..<20]\<rparr>,
      example_world
        \<lparr>cells := (cells example_world)
                    (2 := map (\<lambda>i. example_question (digits i) None (if i < 14 then 2 else 3))
                            [0..<20]),
         fresh := 3\<rparr>)"

text \<open>
  A store with the chapter \<open>c1\<close>, its two topics, two MCQs and one formula, and a
  second chapter \<open>c2\<close> with one topic.
\<close>

definition example_store :: firestore where
  "example_store =
     [((''chapters'', ''c1''), [(''subjectId'', ''s1''), (''title'', ''Motion'')]),
      ((''chapters'', ''c2''), [(''subjectId'', ''s1''), (''title'', ''Light'')]),
      ((''topics'', ''t1''), [(''chapterId'', ''c1''), (''title'', ''Speed'')]),
      ((''topics'', ''t2''), [(''chapterId'', ''c1''), (''title'', ''Force'')]),
      ((''topics'', ''t3''), [(''chapterId'', ''c2''), (''title'', ''Lens'')]),
      ((''mcqs'', ''q1''), [(''chapterId'', ''c1''), (''question'', ''a'')]),
      ((''mcqs'', ''q2''), [(''chapterId'', ''c1''), (''question'', ''b'')]),
      ((''formulas'', ''f1''), [(''chapterId'', ''c1''), (''title'', ''v'')])]"

definition example_admin_world :: admin_world where
  "example_admin_world = \<lparr>store = example_store, commitCalls = [], adm_console = []\<rparr>"

definition example_admin_state :: admin_state where
  "example_admin_state = \<lparr>adm_loading = False, adm_msg = None\<rparr>"

section \<open>Properties of the session setup\<close>

lemma sessionList_setupSession:
  "sessionList (setupSession p rnd src bookmarks mode topic limit (st, w)) =
     slice0 limit (rnd (filteredQuestions p bookmarks mode topic (cells w src)))"
  by (simp add: sessionList_def setupSession_def filteredQuestions_def array_filter_def
      array_sort_def array_slice0_def alloc_def Let_def)

lemma limitInput_Some: "limitInput (Some l) = min 100 (max 1 l)"
  by (simp add: limitInput_def)

lemma length_slice0: "0 \<le> e \<Longrightarrow> length (slice0 e xs) = min (nat e) (length xs)"
  by (simp add: slice0_def min.commute)

lemma mset_slice0: "mset (slice0 e xs) \<subseteq># mset xs"
proof -
  have "mset (take n xs) \<subseteq># mset xs" for n
  proof -
    have "mset xs = mset (take n xs) + mset (drop n xs)"
      by (metis append_take_drop_id mset_append)
    then show ?thesis by simp
  qed
  then show ?thesis by (simp add: slice0_def)
qed

lemma set_slice0: "set (slice0 e xs) \<subseteq> set xs"
  by (auto simp: slice0_def dest: in_set_takeD)

lemma distinct_slice0: "distinct xs \<Longrightarrow> distinct (slice0 e xs)"
  by (simp add: slice0_def)

lemma mset_filteredQuestions:
  "mset (filteredQuestions p bookmarks mode topic src) \<subseteq># mset src"
proof -
  have "filter_mset P (filter_mset Q M) \<subseteq># M" for P Q and M :: "MCQ multiset"
    by (meson multiset_filter_subset subset_mset.order_trans)
  then show ?thesis
    by (simp add: filteredQuestions_def Let_def)
qed

lemma distinct_filteredQuestions:
  "distinct src \<Longrightarrow> distinct (filteredQuestions p bookmarks mode topic src)"
  by (simp add: filteredQuestions_def Let_def)

lemma bookmarked_filteredQuestions:
  "isQuickRevision p \<or> mode = ModeBookmarked \<Longrightarrow>
   q \<in> set (filteredQuestions p bookmarks mode topic src) \<Longrightarrow> id_MCQ q \<in> bookmarks"
  by (auto simp: filteredQuestions_def Let_def split: if_splits)

text \<open>
  Claim C1. For every source list and every limit, the session list that
  \<^verbatim>\<open>setupSession\<close> builds holds no question more often than the filtered list does, so
  every element is drawn from the filtered list, and it has no duplicates when the
  source list has none. \<^verbatim>\<open>setupSession\<close> slices to the limit it is given: for a limit
  that is not negative the length is \<open>min limit (size of the filtered list)\<close>. The clamp
  to 1..100 is the one of the limit field of the filter panel (\<open>limitInput\<close>), through
  which a limit reaches \<^verbatim>\<open>setupSession\<close>: for the limit as that field stores it the
  length is \<open>min (limit clamped to 1..100) (size of the filtered list)\<close>. The order left
  by the random sort is any permutation.
\<close>

theorem setupSession_session_list:
  assumes perm: "\<forall>xs. mset (rnd xs) = mset xs"
  shows "length (sessionList (setupSession p rnd src bookmarks mode topic
                                (limitInput (Some limit)) (st, w))) =
           min (nat (min 100 (max 1 limit)))
               (length (filteredQuestions p bookmarks mode topic (cells w src)))
         \<and> (0 \<le> limit \<longrightarrow>
              length (sessionList (setupSession p rnd src bookmarks mode topic limit (st, w))) =
                min (nat limit) (length (filteredQuestions p bookmarks mode topic (cells w src))))
         \<and> mset (sessionList (setupSession p rnd src bookmarks mode topic limit (st, w)))
             \<subseteq># mset (filteredQuestions p bookmarks mode topic (cells w src))
         \<and> (distinct (cells w src) \<longrightarrow>
              distinct (sessionList (setupSession p rnd src bookmarks mode topic limit (st, w))))"
proof -
  let ?F = "filteredQuestions p bookmarks mode topic (cells w src)"
  have q: "sessionList (setupSession p rnd src bookmarks mode topic l (st, w))
             = slice0 l (rnd ?F)" for l
    by (rule sessionList_setupSession)
  have len: "length (rnd ?F) = length ?F"
    using perm by (metis size_mset)
  have raw: "length (sessionList (setupSession p rnd src bookmarks mode topic l (st, w)))
               = min (nat l) (length ?F)" if "0 \<le> l" for l
    by (simp only: q length_slice0 [OF that] len)
  have nn: "0 \<le> limitInput (Some limit)"
    by (simp add: limitInput_Some)
  have 1: "length (sessionList (setupSession p rnd src bookmarks mode topic
                                  (limitInput (Some limit)) (st, w)))
             = min (nat (min 100 (max 1 limit))) (length ?F)"
    using raw [OF nn] by (simp only: limitInput_Some)
  have 2: "mset (sessionList (setupSession p rnd src bookmarks mode topic limit (st, w)))
             \<subseteq># mset ?F"
    using mset_slice0 [of limit "rnd ?F"] perm by (simp add: q)
  have 3: "distinct (sessionList (setupSession p rnd src bookmarks mode topic limit (st, w)))"
    if "distinct (cells w src)"
  proof -
    have "distinct ?F" using that by (rule distinct_filteredQuestions)
    then have "distinct (rnd ?F)"
      using perm by (metis mset_eq_imp_distinct_iff)
    then show ?thesis by (simp add: q distinct_slice0)
  qed
  from 1 raw 2 3 show ?thesis by blast
qed

text \<open>
  On the example chapter of three questions, with a sort that reverses: the limit 150
  is stored as 100 and gives all three questions, the limit 2 gives two.
\<close>

theorem setupSession_session_list_witness:
  "(\<forall>xs :: MCQ list. mset (rev xs) = mset xs)
   \<and> distinct (cells example_world 0)
   \<and> (0::int) \<le> 2
   \<and> length (sessionList (setupSession example_props rev 0 {} ModeAll None
                (limitInput (Some 150)) (example_state, example_world))) = 3
   \<and> length (sessionList (setupSession example_props rev 0 {} ModeAll None
                2 (example_state, example_world))) = 2
   \<and> distinct (sessionList (setupSession example_props rev 0 {} ModeAll None
                2 (example_state, example_world)))"
proof -
  have perm: "\<forall>xs :: MCQ list. mset (rev xs) = mset xs" by simp
  have d: "distinct (cells example_world 0)"
    by (simp add: example_world_def example_questions_def example_question_def)
  have f: "length (filteredQuestions example_props {} ModeAll None (cells example_world 0)) = 3"
    by (simp add: filteredQuestions_def topicSelected_def example_props_def example_world_def
        example_questions_def)
  show ?thesis
    using setupSession_session_list [OF perm, of example_props 0 "{}" ModeAll None 150
        example_state example_world]
      setupSession_session_list [OF perm, of example_props 0 "{}" ModeAll None 2
        example_state example_world] perm d f
    by simp
qed

text \<open>
  Claim C2. In the bookmarked mode, and in a quick-revision context whatever the mode,
  the id of every question of the session list is a member of the bookmark set passed to
  \<^verbatim>\<open>setupSession\<close>.
\<close>

theorem setupSession_bookmarked_only:
  assumes perm: "\<forall>xs. mset (rnd xs) = mset xs"
    and bm: "isQuickRevision p \<or> mode = ModeBookmarked"
  shows "\<forall>q \<in> set (sessionList (setupSession p rnd src bookmarks mode topic limit (st, w))).
           id_MCQ q \<in> bookmarks"
proof
  fix q
  let ?F = "filteredQuestions p bookmarks mode topic (cells w src)"
  assume "q \<in> set (sessionList (setupSession p rnd src bookmarks mode topic limit (st, w)))"
  then have "q \<in> set (slice0 limit (rnd ?F))"
    by (simp add: sessionList_setupSession)
  then have "q \<in> set (rnd ?F)" using set_slice0 by blast
  moreover have "set (rnd ?F) = set ?F" using perm by (metis set_mset_mset)
  ultimately have "q \<in> set ?F" by simp
  with bm show "id_MCQ q \<in> bookmarks" by (rule bookmarked_filteredQuestions)
qed

theorem setupSession_bookmarked_only_witness:
  "(\<forall>xs :: MCQ list. mset (rev xs) = mset xs)
   \<and> (isQuickRevision example_props \<or> ModeBookmarked = ModeBookmarked)
   \<and> sessionList (setupSession example_props rev 0 {''q1'', ''q3''} ModeBookmarked None 20
        (example_state, example_world))
      = [example_question ''q3'' (Some ''t1'') 4, example_question ''q1'' (Some ''t1'') 2]
   \<and> id_MCQ ` set (sessionList (setupSession example_props rev 0 {''q1'', ''q3''} ModeBookmarked
          None 20 (example_state, example_world))) \<subseteq> {''q1'', ''q3''}"
proof -
  have perm: "\<forall>xs :: MCQ list. mset (rev xs) = mset xs" by simp
  have bm: "isQuickRevision example_props \<or> ModeBookmarked = ModeBookmarked" by simp
  have s: "sessionList (setupSession example_props rev 0 {''q1'', ''q3''} ModeBookmarked None 20
        (example_state, example_world))
      = [example_question ''q3'' (Some ''t1'') 4, example_question ''q1'' (Some ''t1'') 2]"
    by (simp add: sessionList_setupSession filteredQuestions_def topicSelected_def slice0_def
        example_props_def example_world_def example_questions_def example_question_def)
  show ?thesis
    using setupSession_bookmarked_only [OF perm bm, of 0 "{''q1'', ''q3''}" None 20
        example_state example_world] perm s
    by blast
qed

section \<open>Effects of the session setup on the state and on the arrays\<close>

lemma setupSession_state:
  "fst (setupSession p rnd src bookmarks mode topic limit (st, w)) =
     st\<lparr>questions := questions (fst (setupSession p rnd src bookmarks mode topic limit (st, w))),
        currentQuestionIndex := 0,
        selectedOption := None,
        isAnswerChecked := False,
        sessionResults := [],
        isSessionComplete :=
          (sessionList (setupSession p rnd src bookmarks mode topic limit (st, w)) = [])\<rparr>"
  by (simp add: sessionList_def setupSession_def array_filter_def array_sort_def
      array_slice0_def alloc_def Let_def)

lemma setupSession_remote:
  "remoteCalls (snd (setupSession p rnd src bookmarks mode topic limit (st, w))) = remoteCalls w
   \<and> bookmarkDocs (snd (setupSession p rnd src bookmarks mode topic limit (st, w))) = bookmarkDocs w
   \<and> progressDocs (snd (setupSession p rnd src bookmarks mode topic limit (st, w))) = progressDocs w"
  by (simp add: setupSession_def array_filter_def array_sort_def
      array_slice0_def alloc_def Let_def)

lemma setupSession_source_in_place:
  assumes "\<not> topicSelected topic" "\<not> isQuickRevision p" "mode \<noteq> ModeBookmarked"
    and "src < fresh w"
  shows "cells (snd (setupSession p rnd src bookmarks mode topic limit (st, w))) src
           = rnd (cells w src)"
  using assms
  by (simp add: setupSession_def array_sort_def array_slice0_def alloc_def Let_def)

lemma setupSession_source_kept:
  assumes "topicSelected topic \<or> isQuickRevision p \<or> mode = ModeBookmarked"
    and "src < fresh w"
  shows "cells (snd (setupSession p rnd src bookmarks mode topic limit (st, w))) src
           = cells w src"
  using assms
  by (auto simp: setupSession_def array_filter_def array_sort_def array_slice0_def alloc_def
      Let_def)

lemma handleResetSession_eq:
  "handleResetSession p rnd (st, w) =
     ((fst (setupSession p rnd (allQuestions st) (userBookmarks st) (tempFilterMode st)
              (tempTopicId st) (tempLimit st) (st, w)))\<lparr>isSessionComplete := False\<rparr>,
      snd (setupSession p rnd (allQuestions st) (userBookmarks st) (tempFilterMode st)
              (tempTopicId st) (tempLimit st) (st, w)))"
  by (simp add: handleResetSession_def split_def Let_def)

lemma handleApplyFilter_eq:
  "handleApplyFilter p rnd (st, w) =
     ((fst (setupSession p rnd (allQuestions st) (userBookmarks st) (tempFilterMode st)
              (tempTopicId st) (tempLimit st) (st\<lparr>selectedTopicId := tempTopicId st\<rparr>, w)))
        \<lparr>showFilterModal := False\<rparr>,
      snd (setupSession p rnd (allQuestions st) (userBookmarks st) (tempFilterMode st)
              (tempTopicId st) (tempLimit st) (st\<lparr>selectedTopicId := tempTopicId st\<rparr>, w)))"
  by (simp add: handleApplyFilter_def split_def Let_def)

lemma setupSession_allQuestions:
  "allQuestions (fst (setupSession p rnd src bookmarks mode topic limit (st, w))) = allQuestions st"
  by (subst setupSession_state) simp

lemma sessionList_handleApplyFilter:
  "sessionList (handleApplyFilter p rnd (st, w))
     = slice0 (tempLimit st)
         (rnd (filteredQuestions p (userBookmarks st) (tempFilterMode st) (tempTopicId st)
                 (cells w (allQuestions st))))"
proof -
  have "sessionList (handleApplyFilter p rnd (st, w))
          = sessionList (setupSession p rnd (allQuestions st) (userBookmarks st)
              (tempFilterMode st) (tempTopicId st) (tempLimit st)
              (st\<lparr>selectedTopicId := tempTopicId st\<rparr>, w))"
    by (simp add: handleApplyFilter_eq sessionList_def)
  then show ?thesis by (simp only: sessionList_setupSession)
qed

lemma sessionList_handleResetSession:
  "sessionList (handleResetSession p rnd (st, w))
     = slice0 (tempLimit st)
         (rnd (filteredQuestions p (userBookmarks st) (tempFilterMode st) (tempTopicId st)
                 (cells w (allQuestions st))))"
proof -
  have "sessionList (handleResetSession p rnd (st, w))
          = sessionList (setupSession p rnd (allQuestions st) (userBookmarks st)
              (tempFilterMode st) (tempTopicId st) (tempLimit st) (st, w))"
    by (simp add: handleResetSession_eq sessionList_def)
  then show ?thesis by (simp only: sessionList_setupSession)
qed

text \<open>
  Claim C10. When no topic is selected and the bookmark filter does not apply, the array
  that \<^verbatim>\<open>setupSession\<close> sorts is the array it was given, not a copy: after the call
  the source array holds the outcome of the sort of its former content. Both
  \<^verbatim>\<open>handleApplyFilter\<close> and \<^verbatim>\<open>handleResetSession\<close> pass the cached list
  \<open>allQuestions\<close>, so building or resetting a session reorders the cached list in
  place; the state cell keeps the same reference.
\<close>

theorem setupSession_permutes_cached_list:
  "(\<not> topicSelected topic \<and> \<not> isQuickRevision p \<and> mode \<noteq> ModeBookmarked \<and> src < fresh w \<longrightarrow>
      cells (snd (setupSession p rnd src bookmarks mode topic limit (st, w))) src
        = rnd (cells w src))
   \<and> (\<not> topicSelected (tempTopicId st) \<and> \<not> isQuickRevision p
        \<and> tempFilterMode st \<noteq> ModeBookmarked \<and> allQuestions st < fresh w \<longrightarrow>
      allQuestions (fst (handleApplyFilter p rnd (st, w))) = allQuestions st
      \<and> cells (snd (handleApplyFilter p rnd (st, w))) (allQuestions st)
          = rnd (cells w (allQuestions st))
      \<and> allQuestions (fst (handleResetSession p rnd (st, w))) = allQuestions st
      \<and> cells (snd (handleResetSession p rnd (st, w))) (allQuestions st)
          = rnd (cells w (allQuestions st)))"
proof -
  have 1: "cells (snd (setupSession p rnd src bookmarks mode topic limit (st, w))) src
             = rnd (cells w src)"
    if "\<not> topicSelected topic" "\<not> isQuickRevision p" "mode \<noteq> ModeBookmarked" "src < fresh w"
    for src bookmarks mode topic limit st
    using that by (rule setupSession_source_in_place)
  have 2: "allQuestions (fst (handleApplyFilter p rnd (st, w))) = allQuestions st"
    by (simp add: handleApplyFilter_eq setupSession_allQuestions)
  have 3: "allQuestions (fst (handleResetSession p rnd (st, w))) = allQuestions st"
    by (simp add: handleResetSession_eq setupSession_allQuestions)
  show ?thesis
    using 1 2 3 by (simp add: handleResetSession_eq handleApplyFilter_eq)
qed

text \<open>
  With a sort that reverses, a reset on the example state turns the cached list around.
\<close>

theorem setupSession_permutes_cached_list_witness:
  "\<not> topicSelected (tempTopicId example_state) \<and> \<not> isQuickRevision example_props
   \<and> tempFilterMode example_state \<noteq> ModeBookmarked
   \<and> allQuestions example_state < fresh example_world
   \<and> cells example_world (allQuestions example_state) = example_questions
   \<and> cells (snd (handleResetSession example_props rev (example_state, example_world)))
        (allQuestions example_state) = rev example_questions
   \<and> rev example_questions \<noteq> example_questions"
proof -
  have a: "\<not> topicSelected (tempTopicId example_state) \<and> \<not> isQuickRevision example_props
     \<and> tempFilterMode example_state \<noteq> ModeBookmarked
     \<and> allQuestions example_state < fresh example_world"
    by (simp add: topicSelected_def example_props_def example_world_def example_state_def)
  have c: "cells example_world (allQuestions example_state) = example_questions"
    by (simp add: example_world_def example_state_def)
  have d: "rev example_questions \<noteq> example_questions"
    by (simp add: example_questions_def example_question_def)
  show ?thesis
    using setupSession_permutes_cached_list [of None example_props ModeAll 0 example_world
        rev "{}" 20 example_state] a c d
    by simp
qed

section \<open>Checking an answer\<close>

text \<open>
  Claim C3. \<^verbatim>\<open>handleCheckAnswer\<close> returns the state and the world as they are when no
  option is selected or the answer is already checked. After a call that did check the
  answer (one entry more in the result log, one remote call more), a second call changes
  nothing: no further entry and no further remote call.
\<close>

theorem handleCheckAnswer_guard:
  "(selectedOption st = None \<or> isAnswerChecked st \<longrightarrow>
      handleCheckAnswer p now ok (st, w) = Inr (st, w))
   \<and> (selectedOption st \<noteq> None \<and> \<not> isAnswerChecked st
        \<and> handleCheckAnswer p now ok (st, w) = Inr (st1, w1) \<longrightarrow>
      length (sessionResults st1) = Suc (length (sessionResults st))
      \<and> length (remoteCalls w1) = Suc (length (remoteCalls w))
      \<and> isAnswerChecked st1
      \<and> handleCheckAnswer p now' ok' (st1, w1) = Inr (st1, w1))"
  by (auto simp: handleCheckAnswer_def Let_def split: option.splits if_splits)

text \<open>
  Claim C4. A call that checks an answer appends one entry to the result log; its
  \<open>isCorrect\<close> is true exactly when the 0-based selected index equals the 1-based
  \<open>correctAnswer\<close> of the current question minus 1, and it stores that selected index
  and that \<open>correctAnswer\<close> unchanged. If every earlier entry of the log satisfies the
  translation, so does every entry afterwards.
\<close>

theorem handleCheckAnswer_records_translation:
  assumes "selectedOption st = Some sel" and "\<not> isAnswerChecked st"
    and "currentQuestionIndex st < length (sessionList (st, w))"
  shows "\<exists>st' w' r.
           handleCheckAnswer p now ok (st, w) = Inr (st', w')
           \<and> sessionResults st' = sessionResults st @ [r]
           \<and> res_isCorrect r
               = (int sel = correctAnswer (sessionList (st, w) ! currentQuestionIndex st) - 1)
           \<and> res_selectedOption r = sel
           \<and> res_correctAnswer r = correctAnswer (sessionList (st, w) ! currentQuestionIndex st)
           \<and> res_questionId r = id_MCQ (sessionList (st, w) ! currentQuestionIndex st)
           \<and> ((\<forall>x \<in> set (sessionResults st). translationHolds x)
                \<longrightarrow> (\<forall>x \<in> set (sessionResults st'). translationHolds x))"
  using assms
  by (cases ok) (simp_all add: handleCheckAnswer_def sessionList_def Let_def translationHolds_def)

text \<open>
  The example session after "Apply Filters" holds the three questions in reverse order;
  in \<open>example_selected\<close> the fourth option is selected, which is the correct answer
  of its first question.
\<close>

lemma example_session_eval:
  "sessionList example_session = rev example_questions
   \<and> questions (fst example_session) = 2
   \<and> currentQuestionIndex (fst example_session) = 0
   \<and> selectedOption (fst example_session) = None
   \<and> \<not> isAnswerChecked (fst example_session)
   \<and> sessionResults (fst example_session) = []
   \<and> remoteCalls (snd example_session) = []
   \<and> userBookmarks (fst example_session) = {}
   \<and> bookmarkDocs (snd example_session) = (\<lambda>k. None)"
  by (simp add: example_session_def handleApplyFilter_eq sessionList_def setupSession_def
      array_sort_def array_slice0_def alloc_def slice0_def Let_def topicSelected_def
      example_state_def example_world_def example_props_def example_questions_def)

theorem handleCheckAnswer_guard_witness:
  "selectedOption (fst example_session) = None
   \<and> handleCheckAnswer example_props 7 True example_session = Inr example_session
   \<and> selectedOption (fst example_selected) \<noteq> None \<and> \<not> isAnswerChecked (fst example_selected)
   \<and> (case handleCheckAnswer example_props 7 True example_selected of
         Inl e \<Rightarrow> False
       | Inr sw1 \<Rightarrow>
           length (sessionResults (fst sw1)) = 1 \<and> length (remoteCalls (snd sw1)) = 1
           \<and> isAnswerChecked (fst sw1)
           \<and> handleCheckAnswer example_props 8 True sw1 = Inr sw1)"
proof -
  have st0: "selectedOption (fst example_session) = None"
    using example_session_eval by blast
  have first: "handleCheckAnswer example_props 7 True example_session = Inr example_session"
    using handleCheckAnswer_guard [of "fst example_session" example_props 7 True
        "snd example_session"] st0
    by simp
  obtain st w where sw: "example_selected = (st, w)" by (cases example_selected)
  have st: "selectedOption st = Some 3" "\<not> isAnswerChecked st" "currentQuestionIndex st = 0"
      "sessionResults st = []" "remoteCalls w = []" "length (cells w (questions st)) = 3"
    using sw example_session_eval
    by (auto simp: example_selected_def example_questions_def sessionList_def)
  have "cells w (questions st) \<noteq> []" using st by auto
  then have "\<exists>st1 w1. handleCheckAnswer example_props 7 True (st, w) = Inr (st1, w1)"
    using st by (simp add: handleCheckAnswer_def Let_def)
  then obtain st1 w1 where r: "handleCheckAnswer example_props 7 True (st, w) = Inr (st1, w1)"
    by blast
  show ?thesis
    using handleCheckAnswer_guard [of st example_props 7 True w st1 w1 8 True] st r first st0
    by (simp add: sw)
qed

theorem handleCheckAnswer_records_translation_witness:
  "selectedOption (fst example_selected) = Some 3 \<and> \<not> isAnswerChecked (fst example_selected)
   \<and> currentQuestionIndex (fst example_selected) < length (sessionList example_selected)
   \<and> correctAnswer (sessionList example_selected ! currentQuestionIndex (fst example_selected)) = 4
   \<and> (\<exists>st' w' r. handleCheckAnswer example_props 7 True example_selected = Inr (st', w')
         \<and> sessionResults st' = [r] \<and> res_isCorrect r \<and> res_selectedOption r = 3
         \<and> res_correctAnswer r = 4 \<and> res_questionId r = ''q3'')"
proof -
  obtain st w where sw: "example_selected = (st, w)" by (cases example_selected)
  have st: "selectedOption st = Some 3" "\<not> isAnswerChecked st" "currentQuestionIndex st = 0"
      "sessionResults st = []" "sessionList (st, w) = rev example_questions"
    using sw example_session_eval
    by (auto simp: example_selected_def sessionList_def)
  have len: "currentQuestionIndex st < length (sessionList (st, w))"
    using st by (simp add: example_questions_def)
  have q: "sessionList (st, w) ! currentQuestionIndex st = example_question ''q3'' (Some ''t1'') 4"
    using st by (simp add: example_questions_def)
  obtain st' w' r where r: "handleCheckAnswer example_props 7 True (st, w) = Inr (st', w')"
      "sessionResults st' = sessionResults st @ [r]"
      "res_isCorrect r = (int 3 = correctAnswer (sessionList (st, w) ! currentQuestionIndex st) - 1)"
      "res_selectedOption r = 3"
      "res_correctAnswer r = correctAnswer (sessionList (st, w) ! currentQuestionIndex st)"
      "res_questionId r = id_MCQ (sessionList (st, w) ! currentQuestionIndex st)"
    using handleCheckAnswer_records_translation [OF st(1) st(2) len, of example_props 7 True]
    by blast
  have "sessionResults st' = [r] \<and> res_isCorrect r \<and> res_selectedOption r = 3
         \<and> res_correctAnswer r = 4 \<and> res_questionId r = ''q3''"
    using r st by (simp add: example_questions_def example_question_def)
  then show ?thesis
    using r(1) st len by (auto simp: sw example_questions_def example_question_def)
qed

section \<open>Resetting a session\<close>

text \<open>
  The example session after "Apply Filters", written out: the sort has reversed the
  cached list in place, and the session is a copy of it at a new address.
\<close>

lemma example_session_state:
  "fst example_session = example_state\<lparr>questions := 2\<rparr>
   \<and> snd example_session
       = example_world\<lparr>cells := (cells example_world)
                                 (0 := rev example_questions, 2 := rev example_questions),
                       fresh := 3\<rparr>"
  by (simp add: example_session_def handleApplyFilter_def setupSession_def
      array_sort_def array_slice0_def alloc_def slice0_def Let_def topicSelected_def
      example_state_def example_world_def example_props_def example_questions_def
      fun_upd_twist)

text \<open>
  Claim C6, as stated, fails in two places. Where the rebuilt list is empty: in the first
  example the bookmarked mode was applied with no bookmark, so the session is empty and
  complete; the reset rebuilds an empty list and leaves the session not complete. Where
  the filter panel was edited without applying: in the second example the applied topic
  is still "all" and the finished session had all three questions, but the reset
  rebuilds with the topic left in the panel and gives the two questions of \<open>t1\<close>.
\<close>

theorem handleResetSession_not_as_claimed:
  "isSessionComplete (fst example_completed)
   \<and> sessionList (handleResetSession example_props rev example_completed) = []
   \<and> \<not> isSessionComplete (fst (handleResetSession example_props rev example_completed))
   \<and> isSessionComplete (fst example_edited)
   \<and> selectedTopicId (fst example_edited) = None
   \<and> map id_MCQ (sessionList example_edited) = [''q3'', ''q2'', ''q1'']
   \<and> map id_MCQ (sessionList (handleResetSession example_props rev example_edited))
       = [''q1'', ''q3'']"
proof -
  have 1: "isSessionComplete (fst example_completed)
   \<and> sessionList (handleResetSession example_props rev example_completed) = []
   \<and> \<not> isSessionComplete (fst (handleResetSession example_props rev example_completed))"
    by (simp add: example_completed_def handleApplyFilter_eq handleResetSession_def
      sessionList_def setupSession_def array_filter_def
      array_sort_def array_slice0_def alloc_def slice0_def Let_def topicSelected_def
      example_state_def example_world_def example_props_def example_questions_def)
  have e: "example_edited
             = (example_state\<lparr>questions := 2, tempTopicId := Some ''t1'', tempLimit := 3,
                                currentQuestionIndex := 2, isSessionComplete := True\<rparr>,
                snd example_session)"
    by (simp add: example_edited_def handleOpenFilter_def closeFilterModal_def
        onTopicChange_def handleNext_def split_def Let_def example_session_state
        example_state_def example_world_def example_questions_def)
  have 2: "isSessionComplete (fst example_edited) \<and> selectedTopicId (fst example_edited) = None"
    by (simp add: e example_state_def)
  have 3: "map id_MCQ (sessionList example_edited) = [''q3'', ''q2'', ''q1'']"
    by (simp add: sessionList_def e example_session_state example_world_def
        example_questions_def example_question_def)
  have "sessionList (handleResetSession example_props rev example_edited)
          = slice0 3 (rev (filteredQuestions example_props {} ModeAll (Some ''t1'')
                             (rev example_questions)))"
    unfolding e sessionList_handleResetSession
    by (simp add: example_session_state example_state_def example_world_def)
  then have 4: "map id_MCQ (sessionList (handleResetSession example_props rev example_edited))
       = [''q1'', ''q3'']"
    by (simp add: filteredQuestions_def topicSelected_def slice0_def example_props_def
        example_questions_def example_question_def)
  from 1 2 3 4 show ?thesis by simp
qed

text \<open>
  Claim C6, amended. \<^verbatim>\<open>handleResetSession\<close> always leaves the session not complete,
  at index 0, with an empty result log, no selection and the checked flag cleared. The
  new session list is built from the cached list \<open>allQuestions\<close> with the filter
  values that the state holds in \<open>tempFilterMode\<close>, \<open>tempTopicId\<close> and \<open>tempLimit\<close>,
  which the reset does not change, and no remote call is issued. \<^verbatim>\<open>setupSession\<close>
  itself marks the session complete exactly when the list it built is empty; in a reset
  the later \<^verbatim>\<open>setIsSessionComplete(false)\<close> overrides that.
\<close>

theorem handleResetSession_restarts:
  "currentQuestionIndex (fst (handleResetSession p rnd (st, w))) = 0
   \<and> sessionResults (fst (handleResetSession p rnd (st, w))) = []
   \<and> selectedOption (fst (handleResetSession p rnd (st, w))) = None
   \<and> \<not> isAnswerChecked (fst (handleResetSession p rnd (st, w)))
   \<and> \<not> isSessionComplete (fst (handleResetSession p rnd (st, w)))
   \<and> sessionList (handleResetSession p rnd (st, w))
       = slice0 (tempLimit st)
           (rnd (filteredQuestions p (userBookmarks st) (tempFilterMode st) (tempTopicId st)
                   (cells w (allQuestions st))))
   \<and> allQuestions (fst (handleResetSession p rnd (st, w))) = allQuestions st
   \<and> remoteCalls (snd (handleResetSession p rnd (st, w))) = remoteCalls w
   \<and> tempFilterMode (fst (handleResetSession p rnd (st, w))) = tempFilterMode st
   \<and> tempTopicId (fst (handleResetSession p rnd (st, w))) = tempTopicId st
   \<and> tempLimit (fst (handleResetSession p rnd (st, w))) = tempLimit st
   \<and> isSessionComplete (fst (setupSession p rnd src bookmarks mode topic limit (st, w)))
       = (sessionList (setupSession p rnd src bookmarks mode topic limit (st, w)) = [])"
proof -
  let ?S = "setupSession p rnd (allQuestions st) (userBookmarks st) (tempFilterMode st)
              (tempTopicId st) (tempLimit st) (st, w)"
  have st: "fst (handleResetSession p rnd (st, w)) = (fst ?S)\<lparr>isSessionComplete := False\<rparr>"
    and w: "snd (handleResetSession p rnd (st, w)) = snd ?S"
    by (simp_all add: handleResetSession_eq)
  have list: "sessionList (handleResetSession p rnd (st, w)) = sessionList ?S"
    by (simp add: sessionList_def st w)
  have fields: "currentQuestionIndex (fst ?S) = 0" "sessionResults (fst ?S) = []"
    "selectedOption (fst ?S) = None" "\<not> isAnswerChecked (fst ?S)"
    "allQuestions (fst ?S) = allQuestions st" "tempFilterMode (fst ?S) = tempFilterMode st"
    "tempTopicId (fst ?S) = tempTopicId st" "tempLimit (fst ?S) = tempLimit st"
    by (subst setupSession_state, simp)+
  have c: "isSessionComplete (fst (setupSession p rnd src bookmarks mode topic limit (st, w)))
       = (sessionList (setupSession p rnd src bookmarks mode topic limit (st, w)) = [])"
    by (subst setupSession_state) simp
  show ?thesis
    using fields c setupSession_remote [of p rnd "allQuestions st" "userBookmarks st"
        "tempFilterMode st" "tempTopicId st" "tempLimit st" st w]
    by (simp add: st w list sessionList_setupSession)
qed

text \<open>
  The filter values that a reset uses are those of the last "Apply Filters" as long as
  only session steps happened since: applying, checking and advancing keep them. Opening
  the filter panel and editing its fields change them.
\<close>

lemma session_steps_keep_filter_values:
  "tempFilterMode (fst (handleApplyFilter p rnd (st, w))) = tempFilterMode st
   \<and> tempTopicId (fst (handleApplyFilter p rnd (st, w))) = tempTopicId st
   \<and> tempLimit (fst (handleApplyFilter p rnd (st, w))) = tempLimit st
   \<and> tempFilterMode (fst (handleNext (st, w))) = tempFilterMode st
   \<and> tempTopicId (fst (handleNext (st, w))) = tempTopicId st
   \<and> tempLimit (fst (handleNext (st, w))) = tempLimit st
   \<and> (handleCheckAnswer p now ok (st, w) = Inr (st', w') \<longrightarrow>
        tempFilterMode st' = tempFilterMode st \<and> tempTopicId st' = tempTopicId st
        \<and> tempLimit st' = tempLimit st)"
proof -
  let ?S = "setupSession p rnd (allQuestions st) (userBookmarks st) (tempFilterMode st)
              (tempTopicId st) (tempLimit st) (st\<lparr>selectedTopicId := tempTopicId st\<rparr>, w)"
  have "tempFilterMode (fst ?S) = tempFilterMode st" "tempTopicId (fst ?S) = tempTopicId st"
    "tempLimit (fst ?S) = tempLimit st"
    by (subst setupSession_state, simp)+
  then have "tempFilterMode (fst (handleApplyFilter p rnd (st, w))) = tempFilterMode st
   \<and> tempTopicId (fst (handleApplyFilter p rnd (st, w))) = tempTopicId st
   \<and> tempLimit (fst (handleApplyFilter p rnd (st, w))) = tempLimit st"
    by (simp add: handleApplyFilter_eq)
  moreover have "tempFilterMode (fst (handleNext (st, w))) = tempFilterMode st
   \<and> tempTopicId (fst (handleNext (st, w))) = tempTopicId st
   \<and> tempLimit (fst (handleNext (st, w))) = tempLimit st"
    by (simp add: handleNext_def)
  moreover have "handleCheckAnswer p now ok (st, w) = Inr (st', w') \<longrightarrow>
        tempFilterMode st' = tempFilterMode st \<and> tempTopicId st' = tempTopicId st
        \<and> tempLimit st' = tempLimit st"
    by (auto simp: handleCheckAnswer_def Let_def split: option.splits if_splits)
  ultimately show ?thesis by blast
qed

section \<open>The stored limit stays between 1 and 100\<close>

lemma length_slice0_le: "0 \<le> e \<Longrightarrow> int (length (slice0 e xs)) \<le> e"
  by (simp add: slice0_def)

lemma limitInvariant_kept:
  assumes inv: "limitInvariant (st, w)"
  shows "limitInvariant (onLimitChange v st, w)"
    and "limitInvariant (onTopicChange t st, w)"
    and "limitInvariant (closeFilterModal st, w)"
    and "limitInvariant (handleOpenFilter (st, w))"
    and "limitInvariant (handleApplyFilter p rnd (st, w))"
    and "limitInvariant (handleResetSession p rnd (st, w))"
    and "limitInvariant (handleNext (st, w))"
    and "limitInvariant (handleToggleBookmark p now ok questionId isBookmarked (st, w))"
    and "handleCheckAnswer p now ok (st, w) = Inr sw' \<Longrightarrow> limitInvariant sw'"
proof -
  have l: "1 \<le> tempLimit st" "tempLimit st \<le> 100" "length (sessionList (st, w)) \<le> 100"
    using inv by (simp_all add: limitInvariant_def)
  show "limitInvariant (onLimitChange v st, w)"
    using l by (simp add: limitInvariant_def onLimitChange_def limitInput_def sessionList_def)
  show "limitInvariant (onTopicChange t st, w)"
    using l by (simp add: limitInvariant_def onTopicChange_def sessionList_def)
  show "limitInvariant (closeFilterModal st, w)"
    using l by (simp add: limitInvariant_def closeFilterModal_def sessionList_def)
  show "limitInvariant (handleOpenFilter (st, w))"
    using l
    by (cases "cells w (questions st)")
       (simp_all add: limitInvariant_def handleOpenFilter_def sessionList_def Let_def
        MAX_QUESTIONS_PER_SESSION_def)
  have b: "length (slice0 (tempLimit st) xs) \<le> 100" for xs
    using length_slice0_le [of "tempLimit st" xs] l by linarith
  have t1: "tempLimit (fst (handleApplyFilter p rnd (st, w))) = tempLimit st"
    by (simp add: handleApplyFilter_eq) (subst setupSession_state, simp)
  have t2: "tempLimit (fst (handleResetSession p rnd (st, w))) = tempLimit st"
    by (simp add: handleResetSession_eq) (subst setupSession_state, simp)
  show "limitInvariant (handleApplyFilter p rnd (st, w))"
    unfolding limitInvariant_def sessionList_handleApplyFilter t1 using l b by simp
  show "limitInvariant (handleResetSession p rnd (st, w))"
    unfolding limitInvariant_def sessionList_handleResetSession t2 using l b by simp
  show "limitInvariant (handleNext (st, w))"
    using l by (simp add: limitInvariant_def handleNext_def sessionList_def)
  show "limitInvariant (handleToggleBookmark p now ok questionId isBookmarked (st, w))"
    using l by (simp add: limitInvariant_def handleToggleBookmark_def sessionList_def Let_def)
  show "limitInvariant sw'" if "handleCheckAnswer p now ok (st, w) = Inr sw'"
    using that l
    by (auto simp: limitInvariant_def handleCheckAnswer_def sessionList_def Let_def
        split: option.splits if_splits)
qed

text \<open>
  A limit typed into the filter panel and then applied: the session has the length
  \<open>min (limit clamped to 1..100) (size of the filtered list)\<close>.
\<close>

lemma limit_typed_then_applied:
  assumes perm: "\<forall>xs. mset (rnd xs) = mset xs"
  shows "length (sessionList (handleApplyFilter p rnd (onLimitChange (Some limit) st, w)))
           = min (nat (min 100 (max 1 limit)))
               (length (filteredQuestions p (userBookmarks st) (tempFilterMode st)
                          (tempTopicId st) (cells w (allQuestions st))))"
proof -
  let ?F = "filteredQuestions p (userBookmarks st) (tempFilterMode st)
              (tempTopicId st) (cells w (allQuestions st))"
  have "sessionList (handleApplyFilter p rnd (onLimitChange (Some limit) st, w))
          = slice0 (limitInput (Some limit)) (rnd ?F)"
    by (simp add: sessionList_handleApplyFilter onLimitChange_def)
  moreover have "0 \<le> limitInput (Some limit)"
    by (simp add: limitInput_Some)
  moreover have "length (rnd ?F) = length ?F"
    using perm by (metis size_mset)
  ultimately show ?thesis
    by (simp only: length_slice0 limitInput_Some)
qed

lemma limitInvariant_example: "limitInvariant (example_state, example_world)"
  by (simp add: limitInvariant_def sessionList_def example_state_def example_world_def)

section \<open>Toggling a bookmark\<close>

text \<open>
  Claim C7. When both remote calls succeed, toggling a question that is not bookmarked
  adds its id to the local set and creates the bookmark document; toggling it again
  removes the id and deletes the document; after the two toggles the local set is the
  one before the first. The flag \<open>isBookmarked\<close> is the membership test that the
  bookmark button passes.
\<close>

theorem handleToggleBookmark_round_trip:
  assumes "questionId \<notin> userBookmarks st"
    and "sw1 = handleToggleBookmark p now True questionId (questionId \<in> userBookmarks st) (st, w)"
    and "sw2 = handleToggleBookmark p now' True questionId
                 (questionId \<in> userBookmarks (fst sw1)) sw1"
  shows "userBookmarks (fst sw1) = insert questionId (userBookmarks st)
         \<and> bookmarkDocs (snd sw1) (user_uid p, questionId)
             = Some \<lparr>bm_chapterId = chapter_id p, bm_subjectId = chapter_subjectId p,
                     bm_timestamp = now\<rparr>
         \<and> questionId \<notin> userBookmarks (fst sw2)
         \<and> bookmarkDocs (snd sw2) (user_uid p, questionId) = None
         \<and> userBookmarks (fst sw2) = userBookmarks st
         \<and> remoteCalls (snd sw2)
             = remoteCalls w
               @ [SetBookmarkDoc (user_uid p) questionId
                    \<lparr>bm_chapterId = chapter_id p, bm_subjectId = chapter_subjectId p,
                     bm_timestamp = now\<rparr>,
                  DeleteBookmarkDoc (user_uid p) questionId]"
  using assms by (simp add: handleToggleBookmark_def Let_def)

theorem handleToggleBookmark_round_trip_witness:
  "''q2'' \<notin> userBookmarks (fst example_session)
   \<and> userBookmarks (fst (handleToggleBookmark example_props 5 True ''q2'' False example_session))
       = {''q2''}
   \<and> userBookmarks (fst (handleToggleBookmark example_props 6 True ''q2'' True
         (handleToggleBookmark example_props 5 True ''q2'' False example_session))) = {}
   \<and> bookmarkDocs (snd (handleToggleBookmark example_props 6 True ''q2'' True
         (handleToggleBookmark example_props 5 True ''q2'' False example_session)))
         (''u1'', ''q2'') = None"
proof -
  obtain st w where sw: "example_session = (st, w)" by (cases example_session)
  have "userBookmarks (fst example_session) = {}"
    using example_session_eval by blast
  then have b: "userBookmarks st = {}"
    by (simp add: sw)
  have n: "''q2'' \<notin> userBookmarks st" by (simp add: b)
  show ?thesis
    using handleToggleBookmark_round_trip [OF n refl refl, of example_props 5 w 6] b
    by (simp add: sw example_props_def handleToggleBookmark_def Let_def)
qed

text \<open>
  Claim C8. When the remote call of \<^verbatim>\<open>handleToggleBookmark\<close> fails, the local bookmark
  set and the remote documents are as before, the error message is shown, a timer is
  pending whose firing clears the message, and the call log has grown by the one failed
  call only: nothing is retried.
\<close>

theorem handleToggleBookmark_failure:
  "userBookmarks (fst (handleToggleBookmark p now False questionId isBookmarked (st, w)))
     = userBookmarks st
   \<and> bookmarkDocs (snd (handleToggleBookmark p now False questionId isBookmarked (st, w)))
       = bookmarkDocs w
   \<and> msg (fst (handleToggleBookmark p now False questionId isBookmarked (st, w)))
       = Some (MsgError, ''Failed to update bookmark.'')
   \<and> timers (snd (handleToggleBookmark p now False questionId isBookmarked (st, w)))
       = Suc (timers w)
   \<and> msg (fst (timerFires (handleToggleBookmark p now False questionId isBookmarked (st, w))))
       = None
   \<and> remoteCalls (snd (handleToggleBookmark p now False questionId isBookmarked (st, w)))
       = remoteCalls w
         @ [if isBookmarked then DeleteBookmarkDoc (user_uid p) questionId
            else SetBookmarkDoc (user_uid p) questionId
                   \<lparr>bm_chapterId = chapter_id p, bm_subjectId = chapter_subjectId p,
                    bm_timestamp = now\<rparr>]"
  by (simp add: handleToggleBookmark_def timerFires_def Let_def)

section \<open>Deleting a chapter\<close>

lemma getDocs_where_set:
  "set (getDocs_where db coll field v)
     = {r. \<exists>d. (r, d) \<in> set db \<and> fst r = coll \<and> map_of d field = Some v}"
  by (auto simp: getDocs_where_def image_iff)

lemma batch_commit_distinct:
  assumes "distinct (map fst db)"
    and "\<And>r d. (r, d) \<in> set db \<Longrightarrow> (r \<in> set batch) = P (r, d)"
  shows "batch_commit batch db = filter (\<lambda>rd. \<not> P rd) db"
  unfolding batch_commit_def
  using assms(2) by (intro filter_cong) auto

lemma handleDeleteChapter_store_kept:
  "\<not> confirmed \<or> failure \<noteq> None \<Longrightarrow>
   store (snd (handleDeleteChapter confirmed failure c title (st, w))) = store w"
  by (cases failure; cases "the failure") (auto simp: handleDeleteChapter_def Let_def)

lemma handleDeleteChapter_success:
  "handleDeleteChapter True None c title (st, w) =
     (st\<lparr>adm_loading := False,
         adm_msg := Some (MsgSuccess,
           ''Chapter '' @ [CHR 0x22] @ title @ [CHR 0x22]
             @ '' and all related data deleted successfully!'')\<rparr>,
      w\<lparr>store := batch_commit
                   ((''chapters'', c) # getDocs_where (store w) ''topics'' ''chapterId'' c
                      @ getDocs_where (store w) ''mcqs'' ''chapterId'' c
                      @ getDocs_where (store w) ''formulas'' ''chapterId'' c) (store w),
        commitCalls := commitCalls w
           @ [(''chapters'', c) # getDocs_where (store w) ''topics'' ''chapterId'' c
                @ getDocs_where (store w) ''mcqs'' ''chapterId'' c
                @ getDocs_where (store w) ''formulas'' ''chapterId'' c]\<rparr>)"
  by (simp add: handleDeleteChapter_def Let_def)

lemma in_batch_iff:
  assumes d: "distinct (map fst db)" and m: "(r, d) \<in> set db"
  shows "(r \<in> set ((''chapters'', c) # getDocs_where db ''topics'' ''chapterId'' c
                      @ getDocs_where db ''mcqs'' ''chapterId'' c
                      @ getDocs_where db ''formulas'' ''chapterId'' c))
         = belongsToChapter c (r, d)"
proof -
  have same: "d' = d" if "(r, d') \<in> set db" for d'
    using d that m by (rule eq_key_imp_eq_value)
  have g: "(r \<in> set (getDocs_where db coll ''chapterId'' c))
          = (fst r = coll \<and> map_of d ''chapterId'' = Some c)" for coll
  proof -
    have "(r \<in> set (getDocs_where db coll ''chapterId'' c))
            = (\<exists>d'. (r, d') \<in> set db \<and> fst r = coll \<and> map_of d' ''chapterId'' = Some c)"
      by (simp only: getDocs_where_set mem_Collect_eq)
    also have "\<dots> = (fst r = coll \<and> map_of d ''chapterId'' = Some c)"
      using m same by blast
    finally show ?thesis .
  qed
  show ?thesis
    unfolding belongsToChapter_def
    by (simp only: set_simps set_append Un_iff insert_iff empty_iff g fst_conv snd_conv) blast
qed

text \<open>
  Claim C9. In a store whose references are unique, a confirmed delete in which every
  remote call succeeds issues one batch commit, and that commit removes the chapter
  record and every topic, MCQ and formula record whose \<open>chapterId\<close> is the chapter;
  every other record stays. The batch holds exactly the references of those records. If
  the delete is not confirmed, or one of the three queries or the commit fails, the
  store is as before: no record is removed.
\<close>

theorem handleDeleteChapter_all_or_nothing:
  assumes "distinct (map fst (store w))"
  shows "(confirmed \<and> failure = None \<longrightarrow>
            store (snd (handleDeleteChapter confirmed failure c title (st, w)))
              = filter (\<lambda>rd. \<not> belongsToChapter c rd) (store w)
            \<and> (\<exists>batch. commitCalls (snd (handleDeleteChapter confirmed failure c title (st, w)))
                          = commitCalls w @ [batch]
                  \<and> set batch = insert (''chapters'', c)
                                  (fst ` {rd \<in> set (store w). belongsToChapter c rd})))
         \<and> (\<not> confirmed \<or> failure \<noteq> None \<longrightarrow>
            store (snd (handleDeleteChapter confirmed failure c title (st, w))) = store w)"
proof -
  let ?batch = "(''chapters'', c) # getDocs_where (store w) ''topics'' ''chapterId'' c
                      @ getDocs_where (store w) ''mcqs'' ''chapterId'' c
                      @ getDocs_where (store w) ''formulas'' ''chapterId'' c"
  have iff: "(r \<in> set ?batch) = belongsToChapter c (r, d)" if "(r, d) \<in> set (store w)" for r d
    using assms that by (rule in_batch_iff)
  have 1: "batch_commit ?batch (store w) = filter (\<lambda>rd. \<not> belongsToChapter c rd) (store w)"
    using assms iff by (rule batch_commit_distinct)
  have 2: "set ?batch = insert (''chapters'', c)
                          (fst ` {rd \<in> set (store w). belongsToChapter c rd})"
  proof (intro set_eqI iffI)
    fix r assume r: "r \<in> set ?batch"
    show "r \<in> insert (''chapters'', c) (fst ` {rd \<in> set (store w). belongsToChapter c rd})"
    proof (cases "r = (''chapters'', c)")
      case True then show ?thesis by simp
    next
      case False
      then have "r \<in> set (getDocs_where (store w) ''topics'' ''chapterId'' c)
                 \<or> r \<in> set (getDocs_where (store w) ''mcqs'' ''chapterId'' c)
                 \<or> r \<in> set (getDocs_where (store w) ''formulas'' ''chapterId'' c)"
        using r by (simp only: set_simps set_append Un_iff insert_iff) blast
      then obtain d where d: "(r, d) \<in> set (store w)"
        unfolding getDocs_where_set by blast
      then have "belongsToChapter c (r, d)" using iff r by blast
      with d show ?thesis by force
    qed
  next
    fix r assume "r \<in> insert (''chapters'', c) (fst ` {rd \<in> set (store w). belongsToChapter c rd})"
    then consider "r = (''chapters'', c)"
      | d where "(r, d) \<in> set (store w)" "belongsToChapter c (r, d)"
      by auto
    then show "r \<in> set ?batch"
    proof cases
      case 1
      then show ?thesis by simp
    next
      case 2
      then show ?thesis using iff by blast
    qed
  qed
  have s: "store (snd (handleDeleteChapter True None c title (st, w)))
             = filter (\<lambda>rd. \<not> belongsToChapter c rd) (store w)"
    by (simp add: handleDeleteChapter_success 1)
  have b: "commitCalls (snd (handleDeleteChapter True None c title (st, w)))
             = commitCalls w @ [?batch]"
    by (simp add: handleDeleteChapter_success)
  have k: "store (snd (handleDeleteChapter confirmed failure c title (st, w))) = store w"
    if "\<not> confirmed \<or> failure \<noteq> None"
    using that by (rule handleDeleteChapter_store_kept)
  show ?thesis
  proof (intro conjI impI)
    assume "confirmed \<and> failure = None"
    then have c: "confirmed = True" "failure = None" by simp_all
    show "store (snd (handleDeleteChapter confirmed failure c title (st, w)))
            = filter (\<lambda>rd. \<not> belongsToChapter c rd) (store w)"
      unfolding c by (rule s)
    show "\<exists>batch. commitCalls (snd (handleDeleteChapter confirmed failure c title (st, w)))
                      = commitCalls w @ [batch]
              \<and> set batch = insert (''chapters'', c)
                              (fst ` {rd \<in> set (store w). belongsToChapter c rd})"
      unfolding c using b 2 by (intro exI conjI)
  next
    assume "\<not> confirmed \<or> failure \<noteq> None"
    then show "store (snd (handleDeleteChapter confirmed failure c title (st, w))) = store w"
      by (rule k)
  qed
qed

text \<open>
  In the example store six records belong to chapter \<open>c1\<close>; a successful delete
  leaves the two records of chapter \<open>c2\<close>, and a failed one leaves all eight.
\<close>

theorem handleDeleteChapter_all_or_nothing_witness:
  "distinct (map fst (store example_admin_world))
   \<and> length (filter (belongsToChapter ''c1'') (store example_admin_world)) = 6
   \<and> store (snd (handleDeleteChapter True None ''c1'' ''Motion''
               (example_admin_state, example_admin_world)))
       = [((''chapters'', ''c2''), [(''subjectId'', ''s1''), (''title'', ''Light'')]),
          ((''topics'', ''t3''), [(''chapterId'', ''c2''), (''title'', ''Lens'')])]
   \<and> store (snd (handleDeleteChapter True (Some CommitFails) ''c1'' ''Motion''
               (example_admin_state, example_admin_world))) = example_store
   \<and> store (snd (handleDeleteChapter True (Some McqsQueryFails) ''c1'' ''Motion''
               (example_admin_state, example_admin_world))) = example_store"
proof -
  have d: "distinct (map fst (store example_admin_world))"
    by (simp add: example_admin_world_def example_store_def)
  have f: "filter (\<lambda>rd. \<not> belongsToChapter ''c1'' rd) (store example_admin_world)
       = [((''chapters'', ''c2''), [(''subjectId'', ''s1''), (''title'', ''Light'')]),
          ((''topics'', ''t3''), [(''chapterId'', ''c2''), (''title'', ''Lens'')])]"
    by (simp add: example_admin_world_def example_store_def belongsToChapter_def)
  have n: "length (filter (belongsToChapter ''c1'') (store example_admin_world)) = 6"
    by (simp add: example_admin_world_def example_store_def belongsToChapter_def)
  have s: "store example_admin_world = example_store"
    by (simp add: example_admin_world_def)
  show ?thesis
    using handleDeleteChapter_all_or_nothing [OF d, of True None "''c1''" "''Motion''"
        example_admin_state]
      handleDeleteChapter_all_or_nothing [OF d, of True "Some CommitFails" "''c1''" "''Motion''"
        example_admin_state]
      handleDeleteChapter_all_or_nothing [OF d, of True "Some McqsQueryFails" "''c1''" "''Motion''"
        example_admin_state]
      d f n s
    by simp
qed

section \<open>The score\<close>

text \<open>
  The rounding \<open>fl64\<close> moves a value by at most the fraction \<open>2 ^ -53\<close> of it: the
  exponent found by \<open>ilog2\<close> is a lower bound, and rounding the significand to an
  integer moves it by at most one half.
\<close>

lemma ilog2_le:
  assumes "0 < x"
  shows "2 powi (ilog2 x) \<le> x"
proof -
  obtain p q where pq: "quotient_of x = (p, q)" by (cases "quotient_of x")
  have q: "0 < q" using pq quotient_of_denom_pos by blast
  have x: "x = of_int p / of_int q" using pq by (rule quotient_of_div)
  have p: "0 < p"
    using assms q x by (simp add: zero_less_divide_iff)
  let ?k = "bitlen p - bitlen q"
  show ?thesis
  proof (cases "2 powi ?k \<le> x")
    case True
    then show ?thesis by (simp add: ilog2_def pq)
  next
    case False
    have bp: "1 \<le> bitlen p" using p by (simp add: bitlen_alt_def)
    have bq: "1 \<le> bitlen q" using q by (simp add: bitlen_alt_def)
    have lo: "(2::int) ^ nat (bitlen p - 1) \<le> p" using bitlen_bounds [OF p] by simp
    have hi: "q < (2::int) ^ nat (bitlen q)" using bitlen_bounds [OF q] by simp
    have lo': "(2::rat) powi (bitlen p - 1) \<le> of_int p"
    proof -
      have "(of_int ((2::int) ^ nat (bitlen p - 1)) :: rat) \<le> of_int p"
        using lo by (simp only: of_int_le_iff)
      then show ?thesis using bp by (simp add: power_int_def)
    qed
    have hi': "(of_int q :: rat) \<le> 2 powi (bitlen q)"
    proof -
      have "(of_int q :: rat) \<le> of_int ((2::int) ^ nat (bitlen q))"
        using hi by (simp only: of_int_le_iff)
      then show ?thesis using bq by (simp add: power_int_def)
    qed
    have "(2::rat) powi (?k - 1) = 2 powi (bitlen p - 1) / 2 powi (bitlen q)"
      by (simp add: power_int_diff)
    also have "\<dots> \<le> of_int p / 2 powi (bitlen q)"
      using lo' by (simp add: divide_right_mono)
    also have "\<dots> \<le> of_int p / of_int q"
      using hi' p q by (simp add: divide_left_mono)
    finally have "(2::rat) powi (?k - 1) \<le> x" using x by simp
    then show ?thesis using False by (simp add: ilog2_def pq)
  qed
qed

lemma round_half_even_err: "\<bar>of_int (round_half_even x) - x\<bar> \<le> 1/2"
proof -
  have "of_int \<lfloor>x\<rfloor> \<le> x" "x < of_int \<lfloor>x\<rfloor> + 1" by linarith+
  then show ?thesis
    by (auto simp: round_half_even_def Let_def)
qed

lemma fl64_err: "\<bar>fl64 x - x\<bar> \<le> \<bar>x\<bar> / 2 ^ 53"
proof (cases "x = 0")
  case True
  then show ?thesis by (simp add: fl64_def)
next
  case False
  define e where "e = ilog2 \<bar>x\<bar>"
  define ulp :: rat where "ulp = 2 powi (e - 52)"
  have ulp: "0 < ulp" by (simp add: ulp_def)
  have le: "2 powi e \<le> \<bar>x\<bar>" unfolding e_def using False by (intro ilog2_le) simp
  have fl: "fl64 x = of_int (round_half_even (x / ulp)) * ulp"
    using False by (simp add: fl64_def ulp_def e_def Let_def)
  have "\<bar>fl64 x - x\<bar> = \<bar>of_int (round_half_even (x / ulp)) - x / ulp\<bar> * ulp"
  proof -
    have "fl64 x - x = (of_int (round_half_even (x / ulp)) - x / ulp) * ulp"
      using ulp by (simp add: fl field_simps)
    then show ?thesis using ulp by (simp add: abs_mult)
  qed
  also have "\<dots> \<le> (1/2) * ulp"
    using round_half_even_err [of "x / ulp"] ulp by (intro mult_right_mono) auto
  also have "\<dots> = 2 powi e / 2 ^ 53"
  proof -
    have "(2::rat) powi (e - 52) = 2 powi e / 2 powi 52" by (simp add: power_int_diff)
    then show ?thesis by (simp add: ulp_def)
  qed
  also have "\<dots> \<le> \<bar>x\<bar> / 2 ^ 53"
    using le by (simp add: divide_right_mono)
  finally show ?thesis .
qed

lemma fl64_nonneg: "0 \<le> x \<Longrightarrow> 0 \<le> fl64 x"
proof -
  assume x: "0 \<le> x"
  have "x / 2 ^ 53 \<le> x" using x by (simp add: divide_le_eq)
  then show ?thesis using fl64_err [of x] x by linarith
qed

lemma score_arith_err:
  "\<bar>js_mul (js_div c n) 100 - c / n * 100\<bar> \<le> 300 * \<bar>c / n\<bar> / 2 ^ 53"
proof -
  define q where "q = c / n"
  define a where "a = fl64 q"
  define d where "d = fl64 (a * 100)"
  have 1: "\<bar>a - q\<bar> \<le> \<bar>q\<bar> / 2 ^ 53" unfolding a_def by (rule fl64_err)
  have 2: "\<bar>d - a * 100\<bar> \<le> \<bar>a * 100\<bar> / 2 ^ 53" unfolding d_def by (rule fl64_err)
  have 3: "\<bar>a\<bar> \<le> 2 * \<bar>q\<bar>"
  proof -
    have "\<bar>q\<bar> / 2 ^ 53 \<le> \<bar>q\<bar>" by (simp add: divide_le_eq)
    then show ?thesis using 1 by linarith
  qed
  have "\<bar>a * 100\<bar> / 2 ^ 53 = 100 * \<bar>a\<bar> / 2 ^ 53" by (simp add: abs_mult)
  also have "\<dots> \<le> 100 * (2 * \<bar>q\<bar>) / 2 ^ 53"
    using 3 by (intro divide_right_mono mult_left_mono) auto
  finally have 4: "\<bar>d - a * 100\<bar> \<le> 200 * \<bar>q\<bar> / 2 ^ 53" using 2 by simp
  have "d - q * 100 = (d - a * 100) + 100 * (a - q)" by simp
  then have "\<bar>d - q * 100\<bar> \<le> \<bar>d - a * 100\<bar> + \<bar>100 * (a - q)\<bar>"
    by (simp only: abs_triangle_ineq)
  moreover have "\<bar>100 * (a - q)\<bar> = 100 * \<bar>a - q\<bar>"
    unfolding abs_mult by simp
  ultimately have "\<bar>d - q * 100\<bar> \<le> \<bar>d - a * 100\<bar> + 100 * \<bar>a - q\<bar>"
    by (simp only:)
  also have "\<dots> \<le> 200 * \<bar>q\<bar> / 2 ^ 53 + 100 * (\<bar>q\<bar> / 2 ^ 53)"
    using 1 4 by (intro add_mono mult_left_mono) auto
  finally have "\<bar>d - q * 100\<bar> \<le> 300 * \<bar>q\<bar> / 2 ^ 53" by simp
  then show ?thesis by (simp add: d_def a_def q_def js_mul_def js_div_def)
qed

text \<open>
  The quotient \<open>1000 * C / N\<close> is a multiple of \<open>1 / N\<close>, so it is either halfway
  between two integers or at least \<open>1 / (2 * N)\<close> away from halfway. A value closer to
  it than that rounds to an integer nearest to the quotient.
\<close>

lemma nearest_of_close:
  fixes y :: rat and C N :: int
  assumes N: "0 < N"
    and close: "\<bar>y - 1000 * of_int C / of_int N\<bar> < 1 / (2 * of_int N)"
  shows "\<bar>(of_int \<lfloor>y + 1/2\<rfloor> :: rat) - 1000 * of_int C / of_int N\<bar> \<le> 1/2"
proof -
  define T where "T = \<lfloor>y + 1/2\<rfloor>"
  define X :: rat where "X = 1000 * of_int C / of_int N"
  define D :: rat where "D = 2 * of_int N"
  have D: "0 < D" using N by (simp add: D_def)
  have T: "of_int T \<le> y + 1/2" "y + 1/2 < of_int T + 1" unfolding T_def by linarith+
  have X: "X = of_int (2000 * C) / D"
    using N by (simp add: X_def D_def)
  have close': "\<bar>y - X\<bar> < 1 / D" using close by (simp add: X_def D_def)
  have up: "X \<le> of_int T + 1/2"
  proof (rule ccontr)
    assume "\<not> X \<le> of_int T + 1/2"
    moreover have "of_int T + 1/2 = of_int (2 * N * T + N) / D"
      using N by (simp add: D_def field_simps)
    ultimately have "of_int (2 * N * T + N) / D < of_int (2000 * C) / D"
      by (simp only: X not_le)
    then have "(of_int (2 * N * T + N) :: rat) < of_int (2000 * C)"
      using D by (simp add: divide_less_cancel)
    then have "2 * N * T + N < 2000 * C" by (simp only: of_int_less_iff)
    then have "2 * N * T + N + 1 \<le> 2000 * C" by simp
    then have "(of_int (2 * N * T + N + 1) :: rat) \<le> of_int (2000 * C)"
      by (simp only: of_int_le_iff)
    then have "of_int (2 * N * T + N + 1) / D \<le> X"
      using D unfolding X by (intro divide_right_mono) auto
    moreover have "of_int (2 * N * T + N + 1) / D = of_int T + 1/2 + 1 / D"
      using N by (simp add: D_def field_simps)
    ultimately have "of_int T + 1/2 + 1 / D \<le> X" by simp
    then show False using T close' by linarith
  qed
  have lo: "of_int T - 1/2 \<le> X"
  proof (rule ccontr)
    assume "\<not> of_int T - 1/2 \<le> X"
    moreover have "of_int T - 1/2 = of_int (2 * N * T - N) / D"
      using N by (simp add: D_def field_simps)
    ultimately have "of_int (2000 * C) / D < of_int (2 * N * T - N) / D"
      by (simp only: X not_le)
    then have "(of_int (2000 * C) :: rat) < of_int (2 * N * T - N)"
      using D by (simp add: divide_less_cancel)
    then have "2000 * C < 2 * N * T - N" by (simp only: of_int_less_iff)
    then have "2000 * C + 1 \<le> 2 * N * T - N" by simp
    then have "(of_int (2000 * C + 1) :: rat) \<le> of_int (2 * N * T - N)"
      by (simp only: of_int_le_iff)
    then have "of_int (2000 * C + 1) / D \<le> of_int (2 * N * T - N) / D"
      using D by (intro divide_right_mono) auto
    moreover have "of_int (2000 * C + 1) / D = X + 1 / D"
      unfolding X by (simp add: add_divide_distrib)
    moreover have "of_int (2 * N * T - N) / D = of_int T - 1/2"
      using N by (simp add: D_def field_simps)
    ultimately have "X + 1 / D \<le> of_int T - 1/2" by simp
    then show False using T close' by linarith
  qed
  from up lo show ?thesis unfolding T_def [symmetric] X_def [symmetric] by linarith
qed

lemma toFixed1_nonneg:
  "0 \<le> x \<Longrightarrow>
   toFixed1 x = digits (nat \<lfloor>x * 10 + 1/2\<rfloor> div 10) @ ''.'' @ digits (nat \<lfloor>x * 10 + 1/2\<rfloor> mod 10)"
  by (simp add: toFixed1_def Let_def)

lemma score_example: "score 14 20 = JString ''70.0''"
  by code_simp

lemma score_nearest_tenth:
  assumes n: "0 < n" and c: "c < 2 ^ 32"
  shows "\<exists>t. score c n = JString (digits (t div 10) @ ''.'' @ digits (t mod 10))
             \<and> length (digits (t mod 10)) = 1
             \<and> \<bar>(of_nat t :: rat) - 1000 * of_nat c / of_nat n\<bar> \<le> 1/2"
proof -
  define d where "d = js_mul (js_div (of_nat c) (of_nat n)) 100"
  define t where "t = nat \<lfloor>d * 10 + 1/2\<rfloor>"
  have q0: "(0::rat) \<le> of_nat c / of_nat n" by simp
  have d0: "0 \<le> d"
    unfolding d_def js_mul_def js_div_def
    by (intro fl64_nonneg mult_nonneg_nonneg q0) simp
  have sc: "score c n = JString (digits (t div 10) @ ''.'' @ digits (t mod 10))"
    using n d0 by (simp add: score_def toFixed1_nonneg d_def [symmetric] t_def)
  have t: "(of_nat t :: rat) = of_int \<lfloor>d * 10 + 1/2\<rfloor>"
  proof -
    have "0 \<le> \<lfloor>d * 10 + 1/2\<rfloor>" using d0 by simp
    then show ?thesis by (simp add: t_def)
  qed
  have err: "\<bar>d - of_nat c / of_nat n * 100\<bar> \<le> 300 * \<bar>of_nat c / of_nat n\<bar> / 2 ^ 53"
    unfolding d_def by (rule score_arith_err)
  have c': "(of_nat c :: rat) < 2 ^ 32"
  proof -
    have "(of_nat c :: rat) < of_nat (2 ^ 32)" using c by (simp only: of_nat_less_iff)
    then show ?thesis by simp
  qed
  have n': "(0::rat) < of_nat n" using n by simp
  have "\<bar>d * 10 - 1000 * of_nat c / of_nat n\<bar> = 10 * \<bar>d - of_nat c / of_nat n * 100\<bar>"
  proof -
    have "d * 10 - 1000 * of_nat c / of_nat n = 10 * (d - of_nat c / of_nat n * 100)"
      by simp
    moreover have "\<bar>10 * (d - of_nat c / of_nat n * 100)\<bar>
                     = 10 * \<bar>d - of_nat c / of_nat n * 100\<bar>"
      unfolding abs_mult by simp
    ultimately show ?thesis by (simp only:)
  qed
  also have "\<dots> \<le> 10 * (300 * \<bar>of_nat c / of_nat n\<bar> / 2 ^ 53)"
    using err by (intro mult_left_mono) auto
  also have "\<dots> = (3000 * of_nat c / 2 ^ 53) / of_nat n"
    by simp
  also have "\<dots> < (1/2) / of_nat n"
  proof -
    have "3000 * (of_nat c :: rat) / 2 ^ 53 < 1/2" using c' by simp
    then show ?thesis using n' by (intro divide_strict_right_mono)
  qed
  finally have close: "\<bar>d * 10 - 1000 * of_int (int c) / of_int (int n)\<bar> < 1 / (2 * of_int (int n))"
    by simp
  have "\<bar>(of_int \<lfloor>d * 10 + 1/2\<rfloor> :: rat) - 1000 * of_int (int c) / of_int (int n)\<bar> \<le> 1/2"
    using n by (intro nearest_of_close close) simp
  then have "\<bar>(of_nat t :: rat) - 1000 * of_nat c / of_nat n\<bar> \<le> 1/2"
    by (simp add: t)
  moreover have "length (digits (t mod 10)) = 1"
    by (subst digits.simps) simp
  ultimately show ?thesis using sc by blast
qed

text \<open>
  Claim C5. The score of the completion screen, in terms of the result log and of the
  session array: the numerator is the number of entries of \<open>sessionResults\<close> whose
  \<open>isCorrect\<close> is true, the denominator the length of the array \<open>questions\<close>. With 14
  correct results and 20 session questions the score is the string \<open>70.0\<close>; with no
  session question it is the number 0, and no division is evaluated; with at least one
  question it is a string of decimal digits with one digit after the point, and the
  number it denotes is a multiple of one tenth nearest to \<open>correct / total * 100\<close> (at
  an exact tie the double arithmetic decides the side). The count of correct results is
  below \<open>2 ^ 32\<close>, as the length of every array is.
\<close>

theorem SessionCompleteScreen_score_rendering:
  "(length (filter res_isCorrect (sessionResults st)) = 14
      \<and> length (cells w (questions st)) = 20 \<longrightarrow>
      SessionCompleteScreen_score (st, w) = JString ''70.0'')
   \<and> (cells w (questions st) = [] \<longrightarrow> SessionCompleteScreen_score (st, w) = JNumber 0)
   \<and> (cells w (questions st) \<noteq> []
        \<and> length (filter res_isCorrect (sessionResults st)) < 2 ^ 32 \<longrightarrow>
        (\<exists>t. SessionCompleteScreen_score (st, w)
                = JString (digits (t div 10) @ ''.'' @ digits (t mod 10))
             \<and> length (digits (t mod 10)) = 1
             \<and> \<bar>(of_nat t :: rat)
                  - 1000 * of_nat (length (filter res_isCorrect (sessionResults st)))
                      / of_nat (length (cells w (questions st)))\<bar>
                 \<le> 1/2))"
proof -
  let ?c = "length (filter res_isCorrect (sessionResults st))"
  let ?n = "length (cells w (questions st))"
  have s: "SessionCompleteScreen_score (st, w) = score ?c ?n"
    by (simp add: SessionCompleteScreen_score_def totalCorrect_def)
  show ?thesis
  proof (intro conjI impI)
    assume "?c = 14 \<and> ?n = 20"
    then show "SessionCompleteScreen_score (st, w) = JString ''70.0''"
      by (simp only: s score_example)
  next
    assume "cells w (questions st) = []"
    then show "SessionCompleteScreen_score (st, w) = JNumber 0"
      by (simp add: s score_def)
  next
    assume a: "cells w (questions st) \<noteq> [] \<and> ?c < 2 ^ 32"
    then have "0 < ?n" by simp
    then show "\<exists>t. SessionCompleteScreen_score (st, w)
                = JString (digits (t div 10) @ ''.'' @ digits (t mod 10))
             \<and> length (digits (t mod 10)) = 1
             \<and> \<bar>(of_nat t :: rat) - 1000 * of_nat ?c / of_nat ?n\<bar> \<le> 1/2"
      unfolding s using a by (intro score_nearest_tenth) simp_all
  qed
qed

text \<open>
  In the finished example session the result log has twenty entries, fourteen of them
  correct, and the session array has twenty questions.
\<close>

lemma example_finished_eval:
  "length (filter res_isCorrect (sessionResults (fst example_finished))) = 14
   \<and> length (sessionResults (fst example_finished)) = 20
   \<and> length (cells (snd example_finished) (questions (fst example_finished))) = 20"
proof -
  have "length (filter (\<lambda>i. i < 14) [0..<20]) = (14::nat)" by code_simp
  then have 1: "length (filter res_isCorrect (sessionResults (fst example_finished))) = 14"
    by (simp add: example_finished_def example_state_def filter_map o_def)
  have 2: "length (sessionResults (fst example_finished)) = 20"
    by (simp add: example_finished_def example_state_def)
  have 3: "length (cells (snd example_finished) (questions (fst example_finished))) = 20"
    by (simp add: example_finished_def example_state_def)
  from 1 2 3 show ?thesis by simp
qed

lemma example_completed_eval:
  "cells (snd example_completed) (questions (fst example_completed)) = []"
  by (simp add: example_completed_def handleApplyFilter_def setupSession_def
      array_filter_def array_sort_def array_slice0_def alloc_def slice0_def Let_def
      topicSelected_def example_state_def example_world_def example_props_def
      example_questions_def)

theorem SessionCompleteScreen_score_rendering_witness:
  "length (filter res_isCorrect (sessionResults (fst example_finished))) = 14
   \<and> length (sessionResults (fst example_finished)) = 20
   \<and> length (cells (snd example_finished) (questions (fst example_finished))) = 20
   \<and> SessionCompleteScreen_score example_finished = JString ''70.0''
   \<and> cells (snd example_completed) (questions (fst example_completed)) = []
   \<and> SessionCompleteScreen_score example_completed = JNumber 0"
proof -
  have a: "length (filter res_isCorrect (sessionResults (fst example_finished))) = 14
     \<and> length (sessionResults (fst example_finished)) = 20
     \<and> length (cells (snd example_finished) (questions (fst example_finished))) = 20"
    by (rule example_finished_eval)
  have c: "cells (snd example_completed) (questions (fst example_completed)) = []"
    by (rule example_completed_eval)
  show ?thesis
    using SessionCompleteScreen_score_rendering [of "fst example_finished" "snd example_finished"]
      SessionCompleteScreen_score_rendering [of "fst example_completed" "snd example_completed"]
      a c
    by simp
qed

end
